theory Spec2Isabelle
  imports Complex_Main
begin

section \<open>Python values used by the mapper\<close>

text \<open>
  A Python \<open>str\<close> is a sequence of Unicode code points; it is modelled as the list of
  its code points. \<open>ascii\<close> turns an ASCII literal into such a list.
\<close>

type_synonym ustr = "nat list"

definition ascii :: "string \<Rightarrow> ustr" where
  "ascii s = map of_char s"

text \<open>The exceptions the modelled code can raise.\<close>

datatype py_error =
  ZeroDivisionError | KeyError | ValueError | TypeError | AttributeError | IntegrityError | DoesNotExist

text \<open>
  An insertion-ordered \<open>dict\<close>: an association list with at most one pair per key.
  \<open>od_set\<close> is \<open>d[k] = v\<close>: an existing key keeps its position, a new key goes last.
\<close>

type_synonym ('k, 'v) odict = "('k \<times> 'v) list"

definition od_get :: "('k, 'v) odict \<Rightarrow> 'k \<Rightarrow> 'v option" where
  "od_get d k = map_of d k"

fun od_set :: "'k \<Rightarrow> 'v \<Rightarrow> ('k, 'v) odict \<Rightarrow> ('k, 'v) odict" where
  "od_set k v [] = [(k, v)]"
| "od_set k v ((k', v') # d) = (if k' = k then (k, v) # d else (k', v') # od_set k v d)"


definition od_keys :: "('k, 'v) odict \<Rightarrow> 'k list" where
  "od_keys d = map fst d"

text \<open>\<open>d.setdefault(k, []).append(x)\<close>\<close>

definition od_append :: "'k \<Rightarrow> 'x \<Rightarrow> ('k, 'x list) odict \<Rightarrow> ('k, 'x list) odict" where
  "od_append k x d = (case od_get d k of None \<Rightarrow> od_set k [x] d | Some xs \<Rightarrow> od_set k (xs @ [x]) d)"

subsection \<open>\<open>str.strip\<close>, \<open>str.upper\<close>, \<open>str.replace\<close>\<close>

text \<open>The code points for which \<open>str.isspace\<close> holds; \<open>strip()\<close> removes them at both ends.\<close>

definition py_isspace :: "nat \<Rightarrow> bool" where
  "py_isspace c \<longleftrightarrow>
     (9 \<le> c \<and> c \<le> 13) \<or> (28 \<le> c \<and> c \<le> 32) \<or> c = 133 \<or> c = 160 \<or> c = 5760 \<or>
     (8192 \<le> c \<and> c \<le> 8202) \<or> c = 8232 \<or> c = 8233 \<or> c = 8239 \<or> c = 8287 \<or> c = 12288"

definition py_strip :: "ustr \<Rightarrow> ustr" where
  "py_strip s = rev (dropWhile py_isspace (rev (dropWhile py_isspace s)))"

text \<open>
  \<open>str.upper\<close> maps every code point by the full uppercase mapping of the Unicode
  character database (version 14.0 in CPython 3.11), without regard to its neighbours. The
  table of the code points that change, outside Basic Latin, Latin-1 Supplement and
  U+0400..U+045F: \<open>upper_ranges\<close> holds the code points that become one code point, as
  \<open>(first, last, step, difference)\<close>, and \<open>upper_special\<close> those that become several.
\<close>

definition upper_ranges :: "(nat \<times> nat \<times> nat \<times> int) list" where
  "upper_ranges =
     [
      (257, 303, 2, - 1), (305, 305, 1, - 232), (307, 311, 2, - 1), (314, 328, 2, - 1),
      (331, 375, 2, - 1), (378, 382, 2, - 1), (383, 383, 1, - 300), (384, 384, 1, 195),
      (387, 389, 2, - 1), (392, 392, 1, - 1), (396, 396, 1, - 1), (402, 402, 1, - 1),
      (405, 405, 1, 97), (409, 409, 1, - 1), (410, 410, 1, 163), (414, 414, 1, 130),
      (417, 421, 2, - 1), (424, 424, 1, - 1), (429, 429, 1, - 1), (432, 432, 1, - 1),
      (436, 438, 2, - 1), (441, 441, 1, - 1), (445, 445, 1, - 1), (447, 447, 1, 56),
      (453, 453, 1, - 1), (454, 454, 1, - 2), (456, 456, 1, - 1), (457, 457, 1, - 2),
      (459, 459, 1, - 1), (460, 460, 1, - 2), (462, 476, 2, - 1), (477, 477, 1, - 79),
      (479, 495, 2, - 1), (498, 498, 1, - 1), (499, 499, 1, - 2), (501, 501, 1, - 1),
      (505, 543, 2, - 1), (547, 563, 2, - 1), (572, 572, 1, - 1), (575, 576, 1, 10815),
      (578, 578, 1, - 1), (583, 591, 2, - 1), (592, 592, 1, 10783), (593, 593, 1, 10780),
      (594, 594, 1, 10782), (595, 595, 1, - 210), (596, 596, 1, - 206), (598, 599, 1, - 205),
      (601, 601, 1, - 202), (603, 603, 1, - 203), (604, 604, 1, 42319), (608, 608, 1, - 205),
      (609, 609, 1, 42315), (611, 611, 1, - 207), (613, 613, 1, 42280), (614, 614, 1, 42308),
      (616, 616, 1, - 209), (617, 617, 1, - 211), (618, 618, 1, 42308), (619, 619, 1, 10743),
      (620, 620, 1, 42305), (623, 623, 1, - 211), (625, 625, 1, 10749), (626, 626, 1, - 213),
      (629, 629, 1, - 214), (637, 637, 1, 10727), (640, 640, 1, - 218), (642, 642, 1, 42307),
      (643, 643, 1, - 218), (647, 647, 1, 42282), (648, 648, 1, - 218), (649, 649, 1, - 69),
      (650, 651, 1, - 217), (652, 652, 1, - 71), (658, 658, 1, - 219), (669, 669, 1, 42261),
      (670, 670, 1, 42258), (837, 837, 1, 84), (881, 883, 2, - 1), (887, 887, 1, - 1),
      (891, 893, 1, 130), (940, 940, 1, - 38), (941, 943, 1, - 37), (945, 961, 1, - 32),
      (962, 962, 1, - 31), (963, 971, 1, - 32), (972, 972, 1, - 64), (973, 974, 1, - 63),
      (976, 976, 1, - 62), (977, 977, 1, - 57), (981, 981, 1, - 47), (982, 982, 1, - 54),
      (983, 983, 1, - 8), (985, 1007, 2, - 1), (1008, 1008, 1, - 86), (1009, 1009, 1, - 80),
      (1010, 1010, 1, 7), (1011, 1011, 1, - 116), (1013, 1013, 1, - 96), (1016, 1016, 1, - 1),
      (1019, 1019, 1, - 1), (1121, 1153, 2, - 1), (1163, 1215, 2, - 1), (1218, 1230, 2, - 1),
      (1231, 1231, 1, - 15), (1233, 1327, 2, - 1), (1377, 1414, 1, - 48),
      (4304, 4346, 1, 3008), (4349, 4351, 1, 3008), (5112, 5117, 1, - 8),
      (7296, 7296, 1, - 6254), (7297, 7297, 1, - 6253), (7298, 7298, 1, - 6244),
      (7299, 7300, 1, - 6242), (7301, 7301, 1, - 6243), (7302, 7302, 1, - 6236),
      (7303, 7303, 1, - 6181), (7304, 7304, 1, 35266), (7545, 7545, 1, 35332),
      (7549, 7549, 1, 3814), (7566, 7566, 1, 35384), (7681, 7829, 2, - 1),
      (7835, 7835, 1, - 59), (7841, 7935, 2, - 1), (7936, 7943, 1, 8), (7952, 7957, 1, 8),
      (7968, 7975, 1, 8), (7984, 7991, 1, 8), (8000, 8005, 1, 8), (8017, 8023, 2, 8),
      (8032, 8039, 1, 8), (8048, 8049, 1, 74), (8050, 8053, 1, 86), (8054, 8055, 1, 100),
      (8056, 8057, 1, 128), (8058, 8059, 1, 112), (8060, 8061, 1, 126), (8112, 8113, 1, 8),
      (8126, 8126, 1, - 7205), (8144, 8145, 1, 8), (8160, 8161, 1, 8), (8165, 8165, 1, 7),
      (8526, 8526, 1, - 28), (8560, 8575, 1, - 16), (8580, 8580, 1, - 1),
      (9424, 9449, 1, - 26), (11312, 11359, 1, - 48), (11361, 11361, 1, - 1),
      (11365, 11365, 1, - 10795), (11366, 11366, 1, - 10792), (11368, 11372, 2, - 1),
      (11379, 11379, 1, - 1), (11382, 11382, 1, - 1), (11393, 11491, 2, - 1),
      (11500, 11502, 2, - 1), (11507, 11507, 1, - 1), (11520, 11557, 1, - 7264),
      (11559, 11559, 1, - 7264), (11565, 11565, 1, - 7264), (42561, 42605, 2, - 1),
      (42625, 42651, 2, - 1), (42787, 42799, 2, - 1), (42803, 42863, 2, - 1),
      (42874, 42876, 2, - 1), (42879, 42887, 2, - 1), (42892, 42892, 1, - 1),
      (42897, 42899, 2, - 1), (42900, 42900, 1, 48), (42903, 42921, 2, - 1),
      (42933, 42947, 2, - 1), (42952, 42954, 2, - 1), (42961, 42961, 1, - 1),
      (42967, 42969, 2, - 1), (42998, 42998, 1, - 1), (43859, 43859, 1, - 928),
      (43888, 43967, 1, - 38864), (65345, 65370, 1, - 32), (66600, 66639, 1, - 40),
      (66776, 66811, 1, - 40), (66967, 67003, 2, - 39), (66968, 66977, 1, - 39),
      (66980, 66993, 1, - 39), (66996, 67001, 1, - 39), (67004, 67004, 1, - 39),
      (68800, 68850, 1, - 64), (71872, 71903, 1, - 32), (93792, 93823, 1, - 32),
      (125218, 125251, 1, - 34)]"

definition upper_special :: "(nat \<times> ustr) list" where
  "upper_special =
     [
      (329, [700, 78]), (496, [74, 780]), (912, [921, 776, 769]), (944, [933, 776, 769]),
      (1415, [1333, 1362]), (7830, [72, 817]), (7831, [84, 776]), (7832, [87, 778]),
      (7833, [89, 778]), (7834, [65, 702]), (8016, [933, 787]), (8018, [933, 787, 768]),
      (8020, [933, 787, 769]), (8022, [933, 787, 834]), (8064, [7944, 921]),
      (8065, [7945, 921]), (8066, [7946, 921]), (8067, [7947, 921]), (8068, [7948, 921]),
      (8069, [7949, 921]), (8070, [7950, 921]), (8071, [7951, 921]), (8072, [7944, 921]),
      (8073, [7945, 921]), (8074, [7946, 921]), (8075, [7947, 921]), (8076, [7948, 921]),
      (8077, [7949, 921]), (8078, [7950, 921]), (8079, [7951, 921]), (8080, [7976, 921]),
      (8081, [7977, 921]), (8082, [7978, 921]), (8083, [7979, 921]), (8084, [7980, 921]),
      (8085, [7981, 921]), (8086, [7982, 921]), (8087, [7983, 921]), (8088, [7976, 921]),
      (8089, [7977, 921]), (8090, [7978, 921]), (8091, [7979, 921]), (8092, [7980, 921]),
      (8093, [7981, 921]), (8094, [7982, 921]), (8095, [7983, 921]), (8096, [8040, 921]),
      (8097, [8041, 921]), (8098, [8042, 921]), (8099, [8043, 921]), (8100, [8044, 921]),
      (8101, [8045, 921]), (8102, [8046, 921]), (8103, [8047, 921]), (8104, [8040, 921]),
      (8105, [8041, 921]), (8106, [8042, 921]), (8107, [8043, 921]), (8108, [8044, 921]),
      (8109, [8045, 921]), (8110, [8046, 921]), (8111, [8047, 921]), (8114, [8122, 921]),
      (8115, [913, 921]), (8116, [902, 921]), (8118, [913, 834]), (8119, [913, 834, 921]),
      (8124, [913, 921]), (8130, [8138, 921]), (8131, [919, 921]), (8132, [905, 921]),
      (8134, [919, 834]), (8135, [919, 834, 921]), (8140, [919, 921]), (8146, [921, 776, 768]),
      (8147, [921, 776, 769]), (8150, [921, 834]), (8151, [921, 776, 834]),
      (8162, [933, 776, 768]), (8163, [933, 776, 769]), (8164, [929, 787]), (8166, [933, 834]),
      (8167, [933, 776, 834]), (8178, [8186, 921]), (8179, [937, 921]), (8180, [911, 921]),
      (8182, [937, 834]), (8183, [937, 834, 921]), (8188, [937, 921]), (64256, [70, 70]),
      (64257, [70, 73]), (64258, [70, 76]), (64259, [70, 70, 73]), (64260, [70, 70, 76]),
      (64261, [83, 84]), (64262, [83, 84]), (64275, [1348, 1350]), (64276, [1348, 1333]),
      (64277, [1348, 1339]), (64278, [1358, 1350]), (64279, [1348, 1341])]"

definition upper_table :: "nat \<Rightarrow> ustr" where
  "upper_table c =
     (case map_of upper_special c of
        Some u \<Rightarrow> u
      | None \<Rightarrow>
          (case find (\<lambda>(lo, hi, stride, delta). lo \<le> c \<and> c \<le> hi \<and> (c - lo) mod stride = 0)
                  upper_ranges of
             Some (lo, hi, stride, delta) \<Rightarrow> [nat (int c + delta)]
           | None \<Rightarrow> [c]))"

text \<open>
  \<open>str.upper\<close> on one code point: Basic Latin, Latin-1 Supplement (U+00DF becomes two
  code points) and the Cyrillic code points U+0400..U+045F by their rules, every other code
  point by the table.
\<close>

definition upper_cp :: "nat \<Rightarrow> ustr" where
  "upper_cp c =
     (if c < 128 then (if 97 \<le> c \<and> c \<le> 122 then [c - 32] else [c])
      else if c < 256 then
        (if c = 181 then [924]
         else if c = 223 then [83, 83]
         else if 224 \<le> c \<and> c \<le> 254 \<and> c \<noteq> 247 then [c - 32]
         else if c = 255 then [376]
         else [c])
      else if 1024 \<le> c \<and> c \<le> 1119 then
        (if 1072 \<le> c \<and> c \<le> 1103 then [c - 32]
         else if 1104 \<le> c then [c - 80]
         else [c])
      else upper_table c)"

definition py_upper :: "ustr \<Rightarrow> ustr" where
  "py_upper s = concat (map upper_cp s)"

text \<open>\<open>s.replace(a, b)\<close> for one-character \<open>a\<close> and \<open>b\<close>.\<close>

definition py_replace1 :: "nat \<Rightarrow> nat \<Rightarrow> ustr \<Rightarrow> ustr" where
  "py_replace1 a b s = map (\<lambda>c. if c = a then b else c) s"

text \<open>\<open>normalize_string\<close> of \<open>apps/mapper/utils/utils.py\<close>:
  \<open>string.strip().upper()\<close>, then every no-break space (U+00A0) replaced by a space.\<close>

definition normalize_string :: "ustr \<Rightarrow> ustr" where
  "normalize_string s = py_replace1 160 32 (py_upper (py_strip s))"

text \<open>\<open>standardize_str\<close> of \<open>apps/mapper/fetchers/feed/feed_attributes_fetcher.py\<close>, by which
  the feed fetcher compares attribute names and values with the stored ones:
  \<open>convert.upper()\<close>, then every U+0401 replaced by U+0415 and every no-break space by a
  space.\<close>

definition standardize_str :: "ustr \<Rightarrow> ustr" where
  "standardize_str convert = py_replace1 160 32 (py_replace1 1025 1045 (py_upper convert))"

section \<open>Unit conversion index\<close>

text \<open>A \<open>ValueUnitMap\<close> row. The float multiplier is modelled by a rational.\<close>

record value_unit_map =
  value_unit_from_id :: nat
  value_unit_to_id :: nat
  multiplier :: rat

type_synonym unit_index = "(nat \<times> nat, rat) odict"

text \<open>
  \<open>get_unit_map\<close>: the loop over \<open>ValueUnitMap.objects.all()\<close>, threading the dict
  \<open>result\<close>. \<open>1/unit_map.multiplier\<close> raises \<open>ZeroDivisionError\<close> for a zero multiplier.
\<close>

fun get_unit_map_loop :: "value_unit_map list \<Rightarrow> unit_index \<Rightarrow> py_error + unit_index" where
  "get_unit_map_loop [] result = Inr result"
| "get_unit_map_loop (unit_map # rest) result =
     (let result1 = od_set (value_unit_from_id unit_map, value_unit_to_id unit_map)
                      (multiplier unit_map) result
      in if multiplier unit_map = 0 then Inl ZeroDivisionError
         else get_unit_map_loop rest
                (od_set (value_unit_to_id unit_map, value_unit_from_id unit_map)
                   (1 / multiplier unit_map) result1))"

definition get_unit_map :: "value_unit_map list \<Rightarrow> py_error + unit_index" where
  "get_unit_map rows = get_unit_map_loop rows []"

text \<open>The two keys a row writes.\<close>

definition unit_keys :: "value_unit_map \<Rightarrow> (nat \<times> nat) set" where
  "unit_keys u = {(value_unit_from_id u, value_unit_to_id u), (value_unit_to_id u, value_unit_from_id u)}"

section \<open>Mapping graph reader\<close>

text \<open>
  \<open>dictionary_value_id\<close> of a value-map entry is \<open>market_value.source_id or 0\<close>: the
  source id string, or the integer \<open>0\<close> when the source id is \<open>None\<close> or empty.
\<close>

datatype dvid = IdInt int | IdStr ustr

definition source_id_or_0 :: "ustr option \<Rightarrow> dvid" where
  "source_id_or_0 s = (case s of None \<Rightarrow> IdInt 0 | Some t \<Rightarrow> if t = [] then IdInt 0 else IdStr t)"

text \<open>Truth value of a nullable integer id (\<open>None\<close> and \<open>0\<close> are false).\<close>

definition truthy_id :: "nat option \<Rightarrow> bool" where
  "truthy_id i = (case i of None \<Rightarrow> False | Some n \<Rightarrow> n \<noteq> 0)"

record value_map_entry =
  vm_value :: ustr
  vm_dictionary_value_id :: dvid
  vm_deleted :: bool

text \<open>
  One entry of the attribute map: the dict built per \<open>AttributeMap\<close> row. The key
  \<open>values_map\<close> exists only for a dictionary attribute, hence the option. The type
  \<open>'sid\<close> is the type of marketplace attribute source ids.
\<close>

record 'sid attr_map_entry =
  source_id :: 'sid
  dictionary_id :: "nat option"
  data_type :: "ustr option"
  mapping_id :: nat
  from_unit_id :: "nat option"
  to_unit_id :: "nat option"
  is_rich_content :: bool
  ignore_data_type :: bool
  deleted :: bool
  values_map :: "(ustr, value_map_entry list) odict option"

type_synonym 'sid attribute_map = "(ustr, (nat, 'sid attr_map_entry) odict) odict"

text \<open>
  A row of \<open>attribute_map_queryset\<close>: an \<open>AttributeMap\<close> joined with its feed attribute,
  its \<open>MarketCategoryAttribute\<close> and that one's \<open>MarketAttribute\<close>.
\<close>

record 'sid attribute_map_row =
  am_pk :: nat
  am_category_map_pk :: nat
  am_feed_attribute_name :: ustr
  am_feed_attribute_unit_id :: "nat option"
  am_market_source_id :: 'sid
  am_market_dictionary_id :: "nat option"
  am_market_data_type :: "ustr option"
  am_market_unit_id :: "nat option"
  am_market_is_rich_content :: bool
  am_market_ignore_data_type :: bool
  am_market_disabled :: bool
  am_marketplace_attribute_deleted :: bool

text \<open>
  A row of \<open>value_map_queryset\<close>: a \<open>ValueMap\<close> joined with its attribute map, its feed
  value (and that one's attribute) and its marketplace value, both references being set.
\<close>

record value_map_row =
  vr_attribute_map_id :: nat
  vr_category_map_pk :: nat
  vr_market_disabled :: bool
  vr_feed_attribute_name :: ustr
  vr_feed_value :: ustr
  vr_market_value :: ustr
  vr_market_source_id :: "ustr option"
  vr_market_deleted :: bool

text \<open>The first loop of \<open>get_category_attribute_map\<close>, over the attribute mappings.\<close>

fun attribute_rows_loop :: "'sid attribute_map_row list \<Rightarrow> 'sid attribute_map \<Rightarrow> 'sid attribute_map" where
  "attribute_rows_loop [] attribute_map_data = attribute_map_data"
| "attribute_rows_loop (attr_map # rest) attribute_map_data =
     (let feed_attribute_name = normalize_string (am_feed_attribute_name attr_map);
          bucket = (case od_get attribute_map_data feed_attribute_name of None \<Rightarrow> [] | Some b \<Rightarrow> b);
          map_data = (case od_get bucket (am_pk attr_map) of
              Some e \<Rightarrow> e
            | None \<Rightarrow> \<lparr>source_id = am_market_source_id attr_map,
                       dictionary_id = am_market_dictionary_id attr_map,
                       data_type = am_market_data_type attr_map,
                       mapping_id = am_pk attr_map,
                       from_unit_id = am_feed_attribute_unit_id attr_map,
                       to_unit_id = am_market_unit_id attr_map,
                       is_rich_content = am_market_is_rich_content attr_map,
                       ignore_data_type = am_market_ignore_data_type attr_map,
                       deleted = am_marketplace_attribute_deleted attr_map,
                       values_map = None\<rparr>);
          map_data1 = (if truthy_id (dictionary_id map_data)
                       then map_data\<lparr>values_map := Some []\<rparr> else map_data)
      in attribute_rows_loop rest
           (od_set feed_attribute_name (od_set (am_pk attr_map) map_data1 bucket) attribute_map_data))"

text \<open>
  The second loop, over the value mappings. Indexing \<open>attribute_map_data\<close> by the name and
  the mapping id raises \<open>KeyError\<close> when either is absent.
\<close>

fun value_rows_loop :: "value_map_row list \<Rightarrow> 'sid attribute_map \<Rightarrow> py_error + 'sid attribute_map" where
  "value_rows_loop [] attribute_map_data = Inr attribute_map_data"
| "value_rows_loop (val_map # rest) attribute_map_data =
     (let feed_attribute_name = normalize_string (vr_feed_attribute_name val_map) in
      case od_get attribute_map_data feed_attribute_name of
        None \<Rightarrow> Inl KeyError
      | Some bucket \<Rightarrow>
          (case od_get bucket (vr_attribute_map_id val_map) of
             None \<Rightarrow> Inl KeyError
           | Some map_data \<Rightarrow>
               (case values_map map_data of
                  None \<Rightarrow> value_rows_loop rest attribute_map_data
                | Some attr_values \<Rightarrow>
                    value_rows_loop rest
                      (od_set feed_attribute_name
                         (od_set (vr_attribute_map_id val_map)
                            (map_data\<lparr>values_map := Some
                               (od_append (py_upper (vr_feed_value val_map))
                                  \<lparr>vm_value = vr_market_value val_map,
                                   vm_dictionary_value_id = source_id_or_0 (vr_market_source_id val_map),
                                   vm_deleted = vr_market_deleted val_map\<rparr>
                                  attr_values)\<rparr>)
                            bucket)
                         attribute_map_data))))"

definition get_category_attribute_map ::
  "nat \<Rightarrow> 'sid attribute_map_row list \<Rightarrow> value_map_row list \<Rightarrow> py_error + 'sid attribute_map" where
  "get_category_attribute_map category_mapping_id attribute_maps value_maps =
     value_rows_loop
       (filter (\<lambda>v. vr_category_map_pk v = category_mapping_id \<and> \<not> vr_market_disabled v) value_maps)
       (attribute_rows_loop
          (filter (\<lambda>a. am_category_map_pk a = category_mapping_id \<and> \<not> am_market_disabled a) attribute_maps)
          [])"

section \<open>Attribute value resolver\<close>

text \<open>A resolved assignment. The key \<open>deleted\<close> is present only on the dictionary path.\<close>

record 'sid resolved_value =
  rv_value :: ustr
  rv_dictionary_value_id :: dvid
  rv_deleted :: "bool option"
  attribute_source_id :: 'sid
  rv_data_type :: "ustr option"
  rv_is_rich_content :: bool
  rv_ignore_data_type :: bool

text \<open>The dict \<open>result\<close> of \<open>get_mapped_values\<close>, with its seven keys.\<close>

record 'sid mapped_values =
  result_values :: "(ustr, 'sid resolved_value list) odict"
  unmapped_attributes :: "ustr list"
  unmapped_value_attributes :: "'sid list"
  empty_value_attributes :: "'sid list"
  type_error_attributes :: "'sid list"
  mapped_with_deleted :: "'sid list"
  mapped_with_deleted_value :: "'sid list"

text \<open>
  The numeric conversion \<open>str(round(float(value.replace(',', '.')) * multiplier, 10))\<close> is
  floating-point arithmetic and printing; it is a parameter of the resolver, returning
  \<open>None\<close> where \<open>float\<close> raises \<open>ValueError\<close>.
\<close>

type_synonym converter = "ustr \<Rightarrow> rat \<Rightarrow> ustr option"

text \<open>The loop \<open>for values_map in values_maps[upper_value]\<close> (the loop variable is \<open>values_map1\<close> here).\<close>

fun append_value_maps ::
  "ustr \<Rightarrow> 'sid attr_map_entry \<Rightarrow> value_map_entry list \<Rightarrow> 'sid mapped_values \<Rightarrow> 'sid mapped_values" where
  "append_value_maps attr_name mapping_for_market [] result = result"
| "append_value_maps attr_name mapping_for_market (values_map1 # rest) result =
     (if vm_deleted values_map1 then append_value_maps attr_name mapping_for_market rest result
      else append_value_maps attr_name mapping_for_market rest
             (result\<lparr>result_values :=
                od_append attr_name
                  \<lparr>rv_value = vm_value values_map1,
                   rv_dictionary_value_id = vm_dictionary_value_id values_map1,
                   rv_deleted = Some (vm_deleted values_map1),
                   attribute_source_id = source_id mapping_for_market,
                   rv_data_type = data_type mapping_for_market,
                   rv_is_rich_content = is_rich_content mapping_for_market,
                   rv_ignore_data_type = ignore_data_type mapping_for_market\<rparr>
                  (result_values result)\<rparr>))"

text \<open>\<open>value_unit_map.get((from_unit_id, to_unit_id))\<close>: a key holding \<open>None\<close> is never stored.\<close>

definition get_multiplier :: "unit_index \<Rightarrow> nat option \<Rightarrow> nat option \<Rightarrow> rat option" where
  "get_multiplier value_unit_map f t =
     (case (f, t) of (Some a, Some b) \<Rightarrow> od_get value_unit_map (a, b) | _ \<Rightarrow> None)"

text \<open>The body of the loop \<open>for mapping_for_market in attribute_mapping_data.values()\<close>.\<close>

definition resolve_mapping ::
  "converter \<Rightarrow> unit_index \<Rightarrow> ustr \<Rightarrow> ustr \<Rightarrow> 'sid attr_map_entry \<Rightarrow> 'sid mapped_values
     \<Rightarrow> py_error + 'sid mapped_values" where
  "resolve_mapping convert value_unit_map attr_name attr_value mapping_for_market result =
     (if deleted mapping_for_market then Inr result
      else if attr_value = [] then
        Inr (result\<lparr>empty_value_attributes :=
               empty_value_attributes result @ [source_id mapping_for_market]\<rparr>)
      else if truthy_id (dictionary_id mapping_for_market) then
        (case values_map mapping_for_market of
           None \<Rightarrow> Inl KeyError
         | Some values_maps \<Rightarrow>
             (case od_get values_maps (py_upper attr_value) of
                None \<Rightarrow>
                  Inr (result\<lparr>unmapped_value_attributes :=
                         unmapped_value_attributes result @ [source_id mapping_for_market]\<rparr>)
              | Some entries \<Rightarrow>
                  (let result1 = append_value_maps attr_name mapping_for_market entries result
                   in if od_get (result_values result1) attr_name = None then
                        Inr (result1\<lparr>mapped_with_deleted_value :=
                               mapped_with_deleted_value result1 @ [source_id mapping_for_market]\<rparr>)
                      else Inr result1)))
      else
        (let emit = (\<lambda>v. result\<lparr>result_values :=
                       od_append attr_name
                         \<lparr>rv_value = v,
                          rv_dictionary_value_id = IdInt 0,
                          rv_deleted = None,
                          attribute_source_id = source_id mapping_for_market,
                          rv_data_type = data_type mapping_for_market,
                          rv_is_rich_content = is_rich_content mapping_for_market,
                          rv_ignore_data_type = ignore_data_type mapping_for_market\<rparr>
                         (result_values result)\<rparr>)
         in case get_multiplier value_unit_map (from_unit_id mapping_for_market) (to_unit_id mapping_for_market) of
              None \<Rightarrow> Inr (emit attr_value)
            | Some m \<Rightarrow>
                if m = 0 then Inr (emit attr_value)
                else (case convert attr_value m of
                        None \<Rightarrow>
                          Inr (result\<lparr>type_error_attributes :=
                                 type_error_attributes result @ [source_id mapping_for_market]\<rparr>)
                      | Some v \<Rightarrow> Inr (emit v))))"

fun resolve_mappings ::
  "converter \<Rightarrow> unit_index \<Rightarrow> ustr \<Rightarrow> ustr \<Rightarrow> 'sid attr_map_entry list \<Rightarrow> 'sid mapped_values
     \<Rightarrow> py_error + 'sid mapped_values" where
  "resolve_mappings convert value_unit_map attr_name attr_value [] result = Inr result"
| "resolve_mappings convert value_unit_map attr_name attr_value (mapping_for_market # rest) result =
     (case resolve_mapping convert value_unit_map attr_name attr_value mapping_for_market result of
        Inl e \<Rightarrow> Inl e
      | Inr result1 \<Rightarrow> resolve_mappings convert value_unit_map attr_name attr_value rest result1)"

text \<open>
  The loop \<open>for attr_value in attr_values\<close>; \<open>not attribute_mapping_data\<close> holds for a
  missing name and for an empty dict.
\<close>

fun resolve_values ::
  "converter \<Rightarrow> unit_index \<Rightarrow> 'sid attribute_map \<Rightarrow> ustr \<Rightarrow> ustr list \<Rightarrow> 'sid mapped_values
     \<Rightarrow> py_error + 'sid mapped_values" where
  "resolve_values convert value_unit_map attribute_map attr_name [] result = Inr result"
| "resolve_values convert value_unit_map attribute_map attr_name (attr_value # rest) result =
     (case od_get attribute_map attr_name of
        None \<Rightarrow>
          resolve_values convert value_unit_map attribute_map attr_name rest
            (result\<lparr>unmapped_attributes := unmapped_attributes result @ [attr_name]\<rparr>)
      | Some attribute_mapping_data \<Rightarrow>
          if attribute_mapping_data = [] then
            resolve_values convert value_unit_map attribute_map attr_name rest
              (result\<lparr>unmapped_attributes := unmapped_attributes result @ [attr_name]\<rparr>)
          else
            (case resolve_mappings convert value_unit_map attr_name attr_value
                    (map snd attribute_mapping_data) result of
               Inl e \<Rightarrow> Inl e
             | Inr result1 \<Rightarrow>
                 resolve_values convert value_unit_map attribute_map attr_name rest result1))"

text \<open>The loop \<open>for attr_name, attr_values in feed_attribute_values.items()\<close>.\<close>

fun resolve_items ::
  "converter \<Rightarrow> unit_index \<Rightarrow> 'sid attribute_map \<Rightarrow> (ustr, ustr list) odict \<Rightarrow> 'sid mapped_values
     \<Rightarrow> py_error + 'sid mapped_values" where
  "resolve_items convert value_unit_map attribute_map [] result = Inr result"
| "resolve_items convert value_unit_map attribute_map ((attr_name, attr_values) # rest) result =
     (case resolve_values convert value_unit_map attribute_map attr_name attr_values result of
        Inl e \<Rightarrow> Inl e
      | Inr result1 \<Rightarrow> resolve_items convert value_unit_map attribute_map rest result1)"

definition empty_result :: "'sid mapped_values" where
  "empty_result =
     \<lparr>result_values = [], unmapped_attributes = [], unmapped_value_attributes = [],
      empty_value_attributes = [], type_error_attributes = [], mapped_with_deleted = [],
      mapped_with_deleted_value = []\<rparr>"

text \<open>
  \<open>get_mapped_values\<close>. Its first statement calls \<open>get_unit_map\<close>, here on the stored
  \<open>ValueUnitMap\<close> rows.
\<close>

definition get_mapped_values ::
  "converter \<Rightarrow> value_unit_map list \<Rightarrow> 'sid attribute_map \<Rightarrow> (ustr, ustr list) odict
     \<Rightarrow> py_error + 'sid mapped_values" where
  "get_mapped_values convert unit_rows attribute_map feed_attribute_values =
     (case get_unit_map unit_rows of
        Inl e \<Rightarrow> Inl e
      | Inr value_unit_map \<Rightarrow>
          resolve_items convert value_unit_map attribute_map feed_attribute_values empty_result)"

section \<open>Equal-value auto-mapper\<close>

text \<open>
  The tables the auto-mapper reads and writes. An \<open>AttributeMap\<close> row is joined with the
  feed of its feed attribute's category and with the fields of its marketplace attribute.
  \<open>ValueMap\<close> rows are taken with both value references set.
\<close>

record attribute_map_rec =
  attr_map_id :: nat
  attr_map_feed_attribute_id :: nat
  attr_map_feed_id :: nat
  attr_map_equal_values :: bool
  attr_map_dictionary_id :: "nat option"
  attr_map_default_value_id :: "nat option"

record feed_attribute_value =
  fv_id :: nat
  fv_attribute_id :: nat
  fv_value :: ustr

record market_attribute_value =
  mv_id :: nat
  mv_dictionary_id :: nat
  mv_source_id :: "ustr option"
  mv_value :: ustr
  mv_deleted :: bool

record value_map_rec =
  vmap_attribute_map_id :: nat
  vmap_feed_attribute_value_id :: nat
  vmap_marketplace_attribute_value_id :: nat

record mapper_db =
  db_attribute_maps :: "attribute_map_rec list"
  db_feed_values :: "feed_attribute_value list"
  db_market_values :: "market_attribute_value list"
  db_value_maps :: "value_map_rec list"

text \<open>\<open>dict(pairs)\<close>: a later pair with the same key replaces the value of the earlier one.\<close>

definition py_dict :: "('k \<times> 'v) list \<Rightarrow> ('k, 'v) odict" where
  "py_dict pairs = fold (\<lambda>(k, v) d. od_set k v d) pairs []"

text \<open>
  \<open>ValueMap.objects.create\<close>: the uniqueness constraint on the triple makes the insertion
  of a stored triple fail.
\<close>

definition value_map_create :: "value_map_rec \<Rightarrow> mapper_db \<Rightarrow> py_error + mapper_db" where
  "value_map_create row db =
     (if row \<in> set (db_value_maps db) then Inl IntegrityError
      else Inr (db\<lparr>db_value_maps := db_value_maps db @ [row]\<rparr>))"

text \<open>\<open>ValueMap.objects.get_or_create\<close>: a stored triple is left alone.\<close>

definition value_map_get_or_create :: "value_map_rec \<Rightarrow> mapper_db \<Rightarrow> mapper_db" where
  "value_map_get_or_create row db =
     (if row \<in> set (db_value_maps db) then db else db\<lparr>db_value_maps := db_value_maps db @ [row]\<rparr>)"

text \<open>
  The loop of \<open>map_attribute_equal_values\<close> over \<open>unmapped_feed_values.items()\<close>.
  \<open>marketplace_values.get(v) or default_value_id\<close> takes the default when the lookup gives
  \<open>None\<close> or \<open>0\<close>; \<open>not marketplace_value_id\<close> holds for \<open>None\<close> and \<open>0\<close>.
\<close>

fun equal_values_loop ::
  "nat \<Rightarrow> (ustr, nat) odict \<Rightarrow> nat option \<Rightarrow> (ustr \<times> nat) list \<Rightarrow> mapper_db \<Rightarrow> py_error + mapper_db" where
  "equal_values_loop attribute_map_id marketplace_values default_value_id [] db = Inr db"
| "equal_values_loop attribute_map_id marketplace_values default_value_id
       ((feed_value_value, feed_value_id) # rest) db =
     (let marketplace_value_id =
            (if truthy_id (od_get marketplace_values feed_value_value)
             then od_get marketplace_values feed_value_value else default_value_id)
      in case marketplace_value_id of
           None \<Rightarrow> equal_values_loop attribute_map_id marketplace_values default_value_id rest db
         | Some mp_id \<Rightarrow>
             if mp_id = 0 then
               equal_values_loop attribute_map_id marketplace_values default_value_id rest db
             else
               (case value_map_create
                       \<lparr>vmap_attribute_map_id = attribute_map_id,
                        vmap_feed_attribute_value_id = feed_value_id,
                        vmap_marketplace_attribute_value_id = mp_id\<rparr> db of
                  Inl e \<Rightarrow> Inl e
                | Inr db1 \<Rightarrow>
                    equal_values_loop attribute_map_id marketplace_values default_value_id rest db1))"

text \<open>
  \<open>map_attribute_equal_values\<close>, the single-mapping scope. \<open>upper\<close> is the database
  function \<open>Upper\<close>.
\<close>

definition map_attribute_equal_values :: "(ustr \<Rightarrow> ustr) \<Rightarrow> nat \<Rightarrow> mapper_db \<Rightarrow> py_error + mapper_db" where
  "map_attribute_equal_values upper the_attribute_map_id db =
     (case filter (\<lambda>a. attr_map_id a = the_attribute_map_id) (db_attribute_maps db) of
        [] \<Rightarrow> Inl DoesNotExist
      | attribute_map1 # _ \<Rightarrow>
          if \<not> (attr_map_equal_values attribute_map1 \<and> truthy_id (attr_map_dictionary_id attribute_map1))
          then Inr db
          else
            (let mapped_feed_values_ids =
                   map vmap_feed_attribute_value_id
                     (filter (\<lambda>v. vmap_attribute_map_id v = the_attribute_map_id) (db_value_maps db));
                 unmapped_feed_values =
                   py_dict (map (\<lambda>f. (upper (fv_value f), fv_id f))
                     (filter (\<lambda>f. fv_attribute_id f = attr_map_feed_attribute_id attribute_map1 \<and>
                                   fv_id f \<notin> set mapped_feed_values_ids)
                        (db_feed_values db)));
                 marketplace_values =
                   py_dict (map (\<lambda>m. (upper (mv_value m), mv_id m))
                     (filter (\<lambda>m. Some (mv_dictionary_id m) = attr_map_dictionary_id attribute_map1 \<and>
                                   \<not> mv_deleted m)
                        (db_market_values db)))
             in equal_values_loop the_attribute_map_id marketplace_values
                  (attr_map_default_value_id attribute_map1) unmapped_feed_values db))"

text \<open>
  The batch scope. One value of the dict \<open>unmapped_values\<close>: the key \<open>unmapped_feed_values\<close>
  is always set, the key \<open>mp_values\<close> only when the dictionary has a live value.
\<close>

record unmapped_entry =
  unmapped_feed_values_of :: "(nat \<times> ustr) list"
  mp_values_of :: "(nat \<times> ustr) list option"

definition get_both_values_for_unmapped ::
  "(ustr \<Rightarrow> ustr) \<Rightarrow> nat \<Rightarrow> mapper_db \<Rightarrow> (nat, unmapped_entry) odict" where
  "get_both_values_for_unmapped upper feed_id db =
     (let attr_maps_unfiltered =
            filter (\<lambda>a. attr_map_feed_id a = feed_id \<and> attr_map_equal_values a) (db_attribute_maps db);
          attr_maps =
            filter (\<lambda>a. attr_map_equal_values a \<and> truthy_id (attr_map_dictionary_id a))
              attr_maps_unfiltered;
          feed_attr_ids = map attr_map_feed_attribute_id attr_maps;
          mp_attributes_dict_ids = py_dict (map (\<lambda>a. (attr_map_id a, attr_map_dictionary_id a)) attr_maps);
          mapped_feed_values_ids =
            map vmap_feed_attribute_value_id
              (filter (\<lambda>v. vmap_attribute_map_id v \<in> set (od_keys mp_attributes_dict_ids)) (db_value_maps db));
          unmapped_feed_values =
            map (\<lambda>f. (fv_attribute_id f, fv_id f, upper (fv_value f)))
              (filter (\<lambda>f. fv_attribute_id f \<in> set feed_attr_ids \<and> fv_id f \<notin> set mapped_feed_values_ids)
                 (db_feed_values db));
          unmapped_values_dict =
            fold (\<lambda>attr_map d.
                    (let unmapped_feed_attribute_values =
                           map (\<lambda>(attr_id, value_id, value_upper). (value_id, value_upper))
                             (filter (\<lambda>(attr_id, value_id, value_upper).
                                        attr_id = attr_map_feed_attribute_id attr_map)
                                unmapped_feed_values)
                     in if unmapped_feed_attribute_values \<noteq> [] then
                          od_set (attr_map_id attr_map)
                            \<lparr>unmapped_feed_values_of = unmapped_feed_attribute_values,
                             mp_values_of = None\<rparr> d
                        else d))
              attr_maps [];
          marketplace_values =
            map (\<lambda>m. (mv_dictionary_id m, mv_id m, upper (mv_value m)))
              (filter (\<lambda>m. Some (mv_dictionary_id m) \<in> set (map snd mp_attributes_dict_ids) \<and> \<not> mv_deleted m)
                 (db_market_values db))
      in map (\<lambda>(the_attribute_map_id, entry).
                (let mp_attribute_values =
                       map (\<lambda>(dictionary_id1, value_id, value_upper). (value_id, value_upper))
                         (filter (\<lambda>(dictionary_id1, value_id, value_upper).
                                    Some (Some dictionary_id1) = od_get mp_attributes_dict_ids the_attribute_map_id)
                            marketplace_values)
                 in if mp_attribute_values = [] then (the_attribute_map_id, entry)
                    else (the_attribute_map_id, entry\<lparr>mp_values_of := Some mp_attribute_values\<rparr>)))
           unmapped_values_dict)"

text \<open>
  \<open>get_equal_values\<close>: for each unmapped feed value the first marketplace value with the
  same text, stored as \<open>mapping[attribute_map_id][feed_value_id] = mp_value_id\<close>.
\<close>

definition first_equal :: "(nat \<times> ustr) list \<Rightarrow> ustr \<Rightarrow> nat option" where
  "first_equal mp_values text = map_option fst (find (\<lambda>mp_value. text = snd mp_value) mp_values)"

fun get_equal_values_inner ::
  "(nat \<times> ustr) list \<Rightarrow> (nat \<times> ustr) list \<Rightarrow> (nat, nat) odict option \<Rightarrow> (nat, nat) odict option" where
  "get_equal_values_inner mp_values [] inner = inner"
| "get_equal_values_inner mp_values (feed_value # rest) inner =
     (case first_equal mp_values (snd feed_value) of
        None \<Rightarrow> get_equal_values_inner mp_values rest inner
      | Some mp_value_id \<Rightarrow>
          get_equal_values_inner mp_values rest
            (Some (od_set (fst feed_value) mp_value_id (case inner of None \<Rightarrow> [] | Some d \<Rightarrow> d))))"

fun get_equal_values ::
  "(nat, unmapped_entry) odict \<Rightarrow> (nat, (nat, nat) odict) odict \<Rightarrow> (nat, (nat, nat) odict) odict" where
  "get_equal_values [] mapping = mapping"
| "get_equal_values ((the_attribute_map_id, entry) # rest) mapping =
     (case mp_values_of entry of
        None \<Rightarrow> get_equal_values rest mapping
      | Some mp_values \<Rightarrow>
          if mp_values = [] \<or> unmapped_feed_values_of entry = [] then get_equal_values rest mapping
          else
            (case get_equal_values_inner mp_values (unmapped_feed_values_of entry)
                    (od_get mapping the_attribute_map_id) of
               None \<Rightarrow> get_equal_values rest mapping
             | Some inner \<Rightarrow> get_equal_values rest (od_set the_attribute_map_id inner mapping)))"

text \<open>\<open>create_val_mappings\<close>: \<open>get_or_create\<close> for every triple of the mapping.\<close>

definition create_val_mappings :: "(nat, (nat, nat) odict) odict \<Rightarrow> mapper_db \<Rightarrow> mapper_db" where
  "create_val_mappings val_mappings db =
     fold (\<lambda>(map_id, val_mapping) db1.
             fold (\<lambda>(feed_val, mp_val) db2.
                     value_map_get_or_create
                       \<lparr>vmap_attribute_map_id = map_id, vmap_feed_attribute_value_id = feed_val,
                        vmap_marketplace_attribute_value_id = mp_val\<rparr> db2)
               val_mapping db1)
       val_mappings db"

definition map_attribute_equal_values_v2 :: "(ustr \<Rightarrow> ustr) \<Rightarrow> nat \<Rightarrow> mapper_db \<Rightarrow> mapper_db" where
  "map_attribute_equal_values_v2 upper feed_id db =
     create_val_mappings (get_equal_values (get_both_values_for_unmapped upper feed_id db) []) db"

section \<open>Offer attribute builder\<close>

subsection \<open>Offers and Python helpers\<close>

text \<open>
  An offer is the dict parsed from the feed: a tag holds a string, \<open>None\<close>, a list or a
  nested dict.
\<close>

datatype pyval = PNone | PStr ustr | PList "pyval list" | PDict "(ustr \<times> pyval) list"

type_synonym offer = "(ustr, pyval) odict"


text \<open>\<open>offer.get(key)\<close> and the helper \<open>_get(offer, key, default)\<close>.\<close>

definition offer_get :: "offer \<Rightarrow> ustr \<Rightarrow> pyval" where
  "offer_get offer key = (case od_get offer key of None \<Rightarrow> PNone | Some v \<Rightarrow> v)"

definition get_default :: "offer \<Rightarrow> ustr \<Rightarrow> pyval \<Rightarrow> pyval" where
  "get_default offer key dflt = (if offer_get offer key = PNone then dflt else offer_get offer key)"

text \<open>
  \<open>int(s)\<close> for a string: surrounding whitespace, an optional sign, decimal digits, single
  underscores between digits; \<open>None\<close> stands for \<open>ValueError\<close>. Digits are the ASCII
  digits.
\<close>

definition is_digit :: "nat \<Rightarrow> bool" where
  "is_digit c \<longleftrightarrow> 48 \<le> c \<and> c \<le> 57"

fun digits_value :: "ustr \<Rightarrow> int \<Rightarrow> bool \<Rightarrow> int option" where
  "digits_value [] acc prev_digit = (if prev_digit then Some acc else None)"
| "digits_value (c # cs) acc prev_digit =
     (if is_digit c then digits_value cs (10 * acc + int (c - 48)) True
      else if c = 95 \<and> prev_digit then digits_value cs acc False
      else None)"

definition py_int :: "ustr \<Rightarrow> int option" where
  "py_int s =
     (case py_strip s of
        [] \<Rightarrow> None
      | c # r \<Rightarrow>
          if c = 45 then map_option uminus (digits_value r 0 False)
          else if c = 43 then digits_value r 0 False
          else digits_value (c # r) 0 False)"

text \<open>\<open>int(dictionary_value_id)\<close>: of an integer, of a string, or of \<open>None\<close>.\<close>

definition int_of_dvid :: "dvid option \<Rightarrow> py_error + int" where
  "int_of_dvid d =
     (case d of
        None \<Rightarrow> Inl TypeError
      | Some (IdInt n) \<Rightarrow> Inr n
      | Some (IdStr t) \<Rightarrow> (case py_int t of None \<Rightarrow> Inl ValueError | Some n \<Rightarrow> Inr n))"

text \<open>\<open>sub in s\<close> for strings, and \<open>s.split(sep)\<close> for a non-empty separator.\<close>

fun py_contains :: "ustr \<Rightarrow> ustr \<Rightarrow> bool" where
  "py_contains sub [] = (sub = [])"
| "py_contains sub (c # cs) = (take (length sub) (c # cs) = sub \<or> py_contains sub cs)"



subsection \<open>The manager's state\<close>

text \<open>The data \<open>get_market_category_attributes\<close> gives per marketplace attribute.\<close>

record ozon_attribute =
  oa_required :: bool
  oa_disabled :: bool
  oa_dictionary_id :: "nat option"
  oa_name :: ustr

record attribute_values =
  av_complex_id :: int
  av_id :: int
  av_values :: "(pyval \<times> int) list"

datatype ckey = KInt int | KStr ustr

record complex_values =
  cv_complex_id :: int
  cv_id :: int
  cv_values :: "ustr list"

type_synonym errors = "(ustr, ustr) odict"

text \<open>
  The fields of \<open>OzonOfferParamsManager\<close> the builder reads and writes; \<open>self_x\<close> is
  \<open>self._x\<close>. \<open>self_market_category_deleted\<close> is
  \<open>self._category_mapping_data['market_category_deleted']\<close>.
\<close>

record manager =
  self_attribute_map :: "ustr attribute_map"
  self_ozon_attributes :: "(ustr, ozon_attribute) odict"
  self_market_category_deleted :: bool
  self_ozon_category_id :: ustr
  self_required_ozon_attributes :: "ustr list"
  self_attributes_values :: "(int, attribute_values) odict"
  self_complex_attributes_values :: "(int, (ckey, complex_values) odict) odict"
  self_attributes_errors :: "errors option"
  self_tags_errors :: errors

text \<open>The constants of \<open>params_manager.py\<close>.\<close>

datatype attribute_key = Group | Weight | Length | Width | Height | Model | Annotation | Name | VendorCode

fun OZON_ATTRIBUTES_IDS :: "attribute_key \<Rightarrow> ustr list" where
  "OZON_ATTRIBUTES_IDS Group = [ascii ''8292'', ascii ''10289'']"
| "OZON_ATTRIBUTES_IDS Weight = [ascii ''4497'']"
| "OZON_ATTRIBUTES_IDS Length = [ascii ''9454'']"
| "OZON_ATTRIBUTES_IDS Width = [ascii ''9455'']"
| "OZON_ATTRIBUTES_IDS Height = [ascii ''9456'']"
| "OZON_ATTRIBUTES_IDS Model = [ascii ''9048'']"
| "OZON_ATTRIBUTES_IDS Annotation = [ascii ''4191'']"
| "OZON_ATTRIBUTES_IDS Name = [ascii ''4180'']"
| "OZON_ATTRIBUTES_IDS VendorCode = [ascii ''9024'']"

definition TYPE_SOURCE_ID :: ustr where "TYPE_SOURCE_ID = ascii ''8229''"

text \<open>\<open>TN_VED_CODE_SUBSTRING\<close>: the six code points of the Cyrillic abbreviation.\<close>

definition TN_VED_CODE_SUBSTRING :: ustr where
  "TN_VED_CODE_SUBSTRING = [1058, 1053, 32, 1042, 1069, 1044]"



subsection \<open>Errors, values and the outstanding required attributes\<close>

text \<open>The closure \<open>add_error\<close> of \<open>_collect_attributes\<close>, on the local dict \<open>errors\<close>.\<close>

definition add_error :: "(ustr, ozon_attribute) odict \<Rightarrow> ustr \<Rightarrow> ustr \<Rightarrow> errors \<Rightarrow> errors" where
  "add_error ozon the_source_id error errors =
     (case od_get ozon the_source_id of
        None \<Rightarrow> errors
      | Some attr_data \<Rightarrow> if \<not> oa_required attr_data then errors else od_set the_source_id error errors)"

text \<open>\<open>_remove_ozon_attribute_from_required\<close>: the loop removes every occurrence.\<close>

definition remove_ozon_attribute_from_required :: "ustr \<Rightarrow> manager \<Rightarrow> manager" where
  "remove_ozon_attribute_from_required the_source_id self =
     self\<lparr>self_required_ozon_attributes := removeAll the_source_id (self_required_ozon_attributes self)\<rparr>"

text \<open>\<open>_add_attribute_value\<close>; both \<open>int\<close> conversions can raise.\<close>

definition add_attribute_value :: "ustr \<Rightarrow> pyval \<Rightarrow> dvid option \<Rightarrow> manager \<Rightarrow> py_error + manager" where
  "add_attribute_value attribute_source_id1 v dictionary_value_id self =
     (case py_int attribute_source_id1 of
        None \<Rightarrow> Inl ValueError
      | Some key \<Rightarrow>
          (case int_of_dvid dictionary_value_id of
             Inl e \<Rightarrow> Inl e
           | Inr dv \<Rightarrow>
               (let entry = (case od_get (self_attributes_values self) key of
                               None \<Rightarrow> \<lparr>av_complex_id = 0, av_id = key, av_values = []\<rparr>
                             | Some e \<Rightarrow> e)
                in Inr (remove_ozon_attribute_from_required attribute_source_id1
                     (self\<lparr>self_attributes_values :=
                        od_set key (entry\<lparr>av_values := av_values entry @ [(v, dv)]\<rparr>)
                          (self_attributes_values self)\<rparr>)))))"


text \<open>
  The closure \<open>add_if_exists\<close>: the loop over the source ids of the key. \<open>None\<close> records
  \<open>missing\<close> and returns; the empty string records \<open>empty\<close> and is assigned all the same.
\<close>

fun add_if_exists_loop :: "ustr list \<Rightarrow> pyval \<Rightarrow> manager \<times> errors \<Rightarrow> py_error + manager \<times> errors" where
  "add_if_exists_loop [] v (self, errors) = Inr (self, errors)"
| "add_if_exists_loop (attribute_source_id1 # rest) v (self, errors) =
     (if od_get (self_ozon_attributes self) attribute_source_id1 = None then
        add_if_exists_loop rest v (self, errors)
      else if v = PNone then
        Inr (self, add_error (self_ozon_attributes self) attribute_source_id1 (ascii ''missing'') errors)
      else
        (let errors1 = (if v = PStr [] then
                          add_error (self_ozon_attributes self) attribute_source_id1 (ascii ''empty'') errors
                        else errors)
         in case add_attribute_value attribute_source_id1 v (Some (IdStr (ascii ''0''))) self of
              Inl e \<Rightarrow> Inl e
            | Inr self1 \<Rightarrow> add_if_exists_loop rest v (self1, errors1)))"

definition add_if_exists :: "attribute_key \<Rightarrow> pyval \<Rightarrow> manager \<times> errors \<Rightarrow> py_error + manager \<times> errors" where
  "add_if_exists attribute_key1 v st = add_if_exists_loop (OZON_ATTRIBUTES_IDS attribute_key1) v st"

subsection \<open>Customs codes\<close>

text \<open>
  \<open>_extract_tn_ved_code\<close>: the leftmost match of \<open>\d[\d .]{2,}\d\<close>, spaces removed. A match
  starting at a digit takes the longest run of digits, spaces and dots after it and ends at
  the last digit of that run, which must leave at least two characters in between.
\<close>

definition tn_ved_class :: "nat \<Rightarrow> bool" where
  "tn_ved_class c \<longleftrightarrow> is_digit c \<or> c = 32 \<or> c = 46"

definition match_code_here :: "ustr \<Rightarrow> ustr option" where
  "match_code_here rest =
     (let run = takeWhile tn_ved_class rest;
          body = rev (dropWhile (\<lambda>c. \<not> is_digit c) (rev run))
      in if length body \<ge> 3 then Some body else None)"

fun search_code :: "ustr \<Rightarrow> ustr option" where
  "search_code [] = None"
| "search_code (c # cs) =
     (if is_digit c then
        (case match_code_here cs of Some body \<Rightarrow> Some (c # body) | None \<Rightarrow> search_code cs)
      else search_code cs)"

definition extract_tn_ved_code :: "ustr \<Rightarrow> ustr" where
  "extract_tn_ved_code code = (case search_code code of None \<Rightarrow> [] | Some m \<Rightarrow> filter (\<lambda>c. c \<noteq> 32) m)"

text \<open>\<open>values_by_code\<close> for one attribute, from the live values of its dictionary.\<close>

type_synonym values_by_code = "(ustr, ustr \<times> ustr option) odict"

definition build_values_by_code :: "market_attribute_value list \<Rightarrow> nat option \<Rightarrow> values_by_code" where
  "build_values_by_code market_values the_dictionary_id =
     fold (\<lambda>attr_value d. od_set (extract_tn_ved_code (mv_value attr_value))
                             (mv_value attr_value, mv_source_id attr_value) d)
       (filter (\<lambda>m. Some (mv_dictionary_id m) = the_dictionary_id \<and> \<not> mv_deleted m) market_values) []"

text \<open>
  The \<open>while\<close> loop over ever shorter prefixes: \<open>Inl\<close> is the \<open>break\<close> with the entry found,
  \<open>Inr\<close> the part left when the loop ends.
\<close>

function tn_ved_while :: "values_by_code \<Rightarrow> ustr \<Rightarrow> (ustr \<times> ustr option) + ustr" where
  "tn_ved_while values_by_code1 tn_ved_code_part =
     (if length tn_ved_code_part \<ge> 4 then
        (case od_get values_by_code1 tn_ved_code_part of
           Some entry \<Rightarrow> Inl entry
         | None \<Rightarrow> tn_ved_while values_by_code1 (butlast tn_ved_code_part))
      else Inr tn_ved_code_part)"
  by pat_completeness auto
termination
  by (relation "measure (\<lambda>(v, part). length part)") auto

declare tn_ved_while.simps [simp del]

text \<open>The loop with its \<open>else\<close> branch, for a code that is a string.\<close>

definition tn_ved_lookup :: "values_by_code \<Rightarrow> ustr \<Rightarrow> (ustr \<times> ustr option) option" where
  "tn_ved_lookup values_by_code1 tn_ved_code =
     (case tn_ved_while values_by_code1 tn_ved_code of
        Inl entry \<Rightarrow> Some entry
      | Inr tn_ved_code_part \<Rightarrow>
          if length tn_ved_code_part = 3
          then od_get values_by_code1 (take 4 tn_ved_code @ ascii ''00'')
          else None)"

definition add_tn_ved_entry :: "ustr \<Rightarrow> ustr \<times> ustr option \<Rightarrow> manager \<Rightarrow> py_error + manager" where
  "add_tn_ved_entry ozon_attr_id entry self =
     add_attribute_value ozon_attr_id (PStr (fst entry)) (map_option IdStr (snd entry)) self"

text \<open>
  One code of the offer. A code that is no string is printed by \<open>str\<close>: \<open>None\<close> gives
  \<open>'None'\<close>, and slicing it in the \<open>else\<close> branch raises \<open>TypeError\<close>; so does slicing a
  non-empty dict. The print of a list or dict starts with a bracket, which no extracted
  code does, and the print of an empty one has two characters.
\<close>

fun add_tn_ved_code :: "values_by_code \<Rightarrow> ustr \<Rightarrow> pyval \<Rightarrow> manager \<Rightarrow> py_error + manager" where
  "add_tn_ved_code values_by_code1 ozon_attr_id (PStr tn_ved_code) self =
     (case tn_ved_lookup values_by_code1 tn_ved_code of
        None \<Rightarrow> Inr self
      | Some entry \<Rightarrow> add_tn_ved_entry ozon_attr_id entry self)"
| "add_tn_ved_code values_by_code1 ozon_attr_id PNone self =
     (case tn_ved_while values_by_code1 (ascii ''None'') of
        Inl entry \<Rightarrow> add_tn_ved_entry ozon_attr_id entry self
      | Inr part \<Rightarrow> Inl TypeError)"
| "add_tn_ved_code values_by_code1 ozon_attr_id (PList l) self = Inr self"
| "add_tn_ved_code values_by_code1 ozon_attr_id (PDict d) self = (if d = [] then Inr self else Inl TypeError)"

fun add_tn_ved_code_list :: "values_by_code \<Rightarrow> ustr \<Rightarrow> pyval list \<Rightarrow> manager \<Rightarrow> py_error + manager" where
  "add_tn_ved_code_list values_by_code1 ozon_attr_id [] self = Inr self"
| "add_tn_ved_code_list values_by_code1 ozon_attr_id (tn_ved_code # rest) self =
     (case add_tn_ved_code values_by_code1 ozon_attr_id tn_ved_code self of
        Inl e \<Rightarrow> Inl e
      | Inr self1 \<Rightarrow> add_tn_ved_code_list values_by_code1 ozon_attr_id rest self1)"

fun add_tn_ved_attributes ::
  "market_attribute_value list \<Rightarrow> (ustr \<times> ozon_attribute) list \<Rightarrow> pyval list \<Rightarrow> manager \<Rightarrow> py_error + manager" where
  "add_tn_ved_attributes market_values [] tn_ved_codes self = Inr self"
| "add_tn_ved_attributes market_values ((ozon_attr_id, attr_data) # rest) tn_ved_codes self =
     (case add_tn_ved_code_list (build_values_by_code market_values (oa_dictionary_id attr_data))
             ozon_attr_id tn_ved_codes self of
        Inl e \<Rightarrow> Inl e
      | Inr self1 \<Rightarrow> add_tn_ved_attributes market_values rest tn_ved_codes self1)"

text \<open>The codes of the offer, as the first lines of \<open>_add_tn_ved_codes\<close> read them.\<close>

definition offer_tn_ved_codes :: "offer \<Rightarrow> pyval list" where
  "offer_tn_ved_codes offer =
     (let tn_ved_codes = get_default offer (ascii ''tn-ved-codes'') (PDict []);
          tn_ved_codes1 = (case tn_ved_codes of
                             PDict d \<Rightarrow> (case od_get d (ascii ''tn-ved-code'') of
                                           None \<Rightarrow> PList [] | Some v \<Rightarrow> v)
                           | other \<Rightarrow> other)
      in case tn_ved_codes1 of PList l \<Rightarrow> l | other \<Rightarrow> [other])"

text \<open>
  \<open>_add_tn_ved_codes\<close>: the manager after the assignments, and the dict \<open>errors\<close> it
  returns. \<open>market_values\<close> is the table \<open>MarketAttributeValue\<close>.
\<close>

definition add_tn_ved_codes :: "market_attribute_value list \<Rightarrow> offer \<Rightarrow> manager \<Rightarrow> py_error + manager \<times> errors" where
  "add_tn_ved_codes market_values offer self =
     (let tn_ved_codes = offer_tn_ved_codes offer;
          tn_ved_attributes =
            filter (\<lambda>(the_source_id, attr_data). py_contains TN_VED_CODE_SUBSTRING (oa_name attr_data))
              (self_ozon_attributes self)
      in case add_tn_ved_attributes market_values tn_ved_attributes tn_ved_codes self of
           Inl e \<Rightarrow> Inl e
         | Inr self1 \<Rightarrow>
             Inr (self1,
                  fold (\<lambda>(the_source_id, attr_data) errors.
                          if the_source_id \<notin> set (self_required_ozon_attributes self1) then errors
                          else if tn_ved_codes = [] then od_set the_source_id (ascii ''missing'') errors
                          else od_set the_source_id (ascii ''not_found'') errors)
                    tn_ved_attributes []))"

subsection \<open>Final consolidation of the required attributes\<close>

text \<open>The dict \<open>mappings\<close>: marketplace source id to feed attribute name and mapping id.\<close>

definition build_mappings :: "ustr attribute_map \<Rightarrow> (ustr, ustr \<times> nat) odict" where
  "build_mappings the_attribute_map =
     fold (\<lambda>(attr_name, attr_maps) m.
             fold (\<lambda>(map_id, attr_map) m1. od_set (source_id attr_map) (attr_name, map_id) m1) attr_maps m)
       the_attribute_map []"

text \<open>
  The body of the loop \<open>for required_attr_source_id in self._required_ozon_attributes\<close>
  after its first test: the error the chain of tests gives the attribute.
\<close>

definition required_error ::
  "ozon_attribute \<Rightarrow> (ustr, ustr \<times> nat) odict \<Rightarrow> (ustr, ustr list) odict \<Rightarrow> ustr \<Rightarrow> ustr" where
  "required_error required_attribute_data mappings feed_params_values required_attr_source_id =
     (if oa_disabled required_attribute_data then ascii ''logical''
      else case od_get mappings required_attr_source_id of
             None \<Rightarrow> ascii ''unmapped''
           | Some (feed_attribute_name, map_id) \<Rightarrow>
               if od_get feed_params_values feed_attribute_name = None then ascii ''missing''
               else ascii ''unknown err'')"

text \<open>
  The loop itself. An attribute that already has an error is skipped;
  \<open>self._ozon_attributes[required_attr_source_id]\<close> raises \<open>KeyError\<close> for an unknown id.
\<close>

fun consolidate_loop ::
  "(ustr, ozon_attribute) odict \<Rightarrow> (ustr, ustr \<times> nat) odict \<Rightarrow> (ustr, ustr list) odict \<Rightarrow> ustr list
     \<Rightarrow> errors \<Rightarrow> py_error + errors" where
  "consolidate_loop ozon mappings feed_params_values [] errors = Inr errors"
| "consolidate_loop ozon mappings feed_params_values (required_attr_source_id # rest) errors =
     (if od_get errors required_attr_source_id \<noteq> None then
        consolidate_loop ozon mappings feed_params_values rest errors
      else
        (case od_get ozon required_attr_source_id of
           None \<Rightarrow> Inl KeyError
         | Some required_attribute_data \<Rightarrow>
             consolidate_loop ozon mappings feed_params_values rest
               (od_set required_attr_source_id
                  (required_error required_attribute_data mappings feed_params_values
                     required_attr_source_id)
                  errors)))"

definition consolidate_required :: "manager \<Rightarrow> (ustr, ustr list) odict \<Rightarrow> errors \<Rightarrow> py_error + errors" where
  "consolidate_required self feed_params_values errors =
     consolidate_loop (self_ozon_attributes self) (build_mappings (self_attribute_map self))
       feed_params_values (self_required_ozon_attributes self) errors"

subsection \<open>What the builder takes from outside\<close>






subsection \<open>Dimensions, weight, media\<close>




subsection \<open>The feed parameters of an offer\<close>






subsection \<open>Collecting the attributes of an offer\<close>











subsection \<open>Collecting the parameters of an offer\<close>










section \<open>Properties of ordered dicts\<close>

lemma od_get_od_set: "od_get (od_set k v d) k' = (if k' = k then Some v else od_get d k')"
  by (induction d) (auto simp: od_get_def)

lemma od_keys_od_set:
  "od_keys (od_set k v d) = (if k \<in> set (od_keys d) then od_keys d else od_keys d @ [k])"
  by (induction d) (fastforce simp: od_keys_def)+

lemma od_get_None_iff: "od_get d k = None \<longleftrightarrow> k \<notin> set (od_keys d)"
  by (simp add: od_get_def od_keys_def map_of_eq_None_iff)

lemma od_get_Some_key: "od_get d k = Some v \<Longrightarrow> k \<in> set (od_keys d)"
  using od_get_None_iff [of d k] by auto

section \<open>Properties of the unit conversion index\<close>

lemma get_unit_map_loop_untouched:
  "get_unit_map_loop rows result = Inr idx \<Longrightarrow> \<forall>q \<in> set rows. k \<notin> unit_keys q \<Longrightarrow>
   od_get idx k = od_get result k"
proof (induction rows arbitrary: result)
  case Nil
  then show ?case by simp
next
  case (Cons u rows)
  from Cons.prems(1) have nz: "multiplier u \<noteq> 0"
    by (auto simp: Let_def split: if_splits)
  let ?r = "od_set (value_unit_to_id u, value_unit_from_id u) (1 / multiplier u)
              (od_set (value_unit_from_id u, value_unit_to_id u) (multiplier u) result)"
  from Cons.prems(1) nz have run: "get_unit_map_loop rows ?r = Inr idx"
    by (simp add: Let_def)
  from Cons.prems(2) have rest: "\<forall>q \<in> set rows. k \<notin> unit_keys q" and here: "k \<notin> unit_keys u"
    by simp_all
  from Cons.IH [OF run rest] have "od_get idx k = od_get ?r k" .
  with here show ?case by (auto simp: unit_keys_def od_get_od_set)
qed

lemma get_unit_map_loop_append:
  "get_unit_map_loop (pre @ post) result = Inr idx \<Longrightarrow>
   \<exists>mid. get_unit_map_loop pre result = Inr mid \<and> get_unit_map_loop post mid = Inr idx"
proof (induction pre arbitrary: result)
  case Nil
  then show ?case by simp
next
  case (Cons u pre)
  then show ?case by (auto simp: Let_def split: if_splits)
qed

text \<open>
  C8 (as amended). When the index is built, a stored conversion between two different units
  has both its entries in it, provided no later row is stored for the same pair of units in
  either direction.
\<close>

theorem get_unit_map_both_directions:
  assumes built: "get_unit_map (pre @ u # post) = Inr idx"
    and differ: "value_unit_from_id u \<noteq> value_unit_to_id u"
    and last: "\<forall>q \<in> set post. unit_keys q \<inter> unit_keys u = {}"
  shows "od_get idx (value_unit_from_id u, value_unit_to_id u) = Some (multiplier u) \<and>
         od_get idx (value_unit_to_id u, value_unit_from_id u) = Some (1 / multiplier u)"
proof -
  from built obtain mid where
    mid: "get_unit_map_loop (u # post) mid = Inr idx"
    unfolding get_unit_map_def by (blast dest: get_unit_map_loop_append)
  then have nz: "multiplier u \<noteq> 0"
    by (auto simp: Let_def split: if_splits)
  let ?r = "od_set (value_unit_to_id u, value_unit_from_id u) (1 / multiplier u)
              (od_set (value_unit_from_id u, value_unit_to_id u) (multiplier u) mid)"
  from mid nz have run: "get_unit_map_loop post ?r = Inr idx"
    by (simp add: Let_def)
  have k1: "\<forall>q \<in> set post. (value_unit_from_id u, value_unit_to_id u) \<notin> unit_keys q"
    and k2: "\<forall>q \<in> set post. (value_unit_to_id u, value_unit_from_id u) \<notin> unit_keys q"
    using last by (auto simp: unit_keys_def)
  from get_unit_map_loop_untouched [OF run k1] get_unit_map_loop_untouched [OF run k2] differ
  show ?thesis by (simp add: od_get_od_set)
qed

theorem get_unit_map_both_directions_witness:
  "get_unit_map ([] @ \<lparr>value_unit_from_id = 1, value_unit_to_id = 2, multiplier = 10\<rparr> # [])
     = Inr [((1, 2), 10), ((2, 1), 1 / 10)] \<and>
   od_get [((1::nat, 2::nat), 10), ((2, 1), 1 / (10::rat))] (1, 2) = Some 10 \<and>
   od_get [((1::nat, 2::nat), 10), ((2, 1), 1 / (10::rat))] (2, 1) = Some (1 / 10)"
proof -
  let ?u = "\<lparr>value_unit_from_id = 1, value_unit_to_id = 2, multiplier = 10\<rparr>"
  have built: "get_unit_map ([] @ ?u # []) = Inr [((1, 2), 10), ((2, 1), 1 / 10)]"
    by (simp add: get_unit_map_def)
  have differ: "value_unit_from_id ?u \<noteq> value_unit_to_id ?u" by simp
  have last: "\<forall>q \<in> set []. unit_keys q \<inter> unit_keys ?u = {}" by simp
  from get_unit_map_both_directions [OF built differ last] built show ?thesis by simp
qed

text \<open>
  C8 (as stated) fails: with the stored rows \<open>(1, 2, 2)\<close> and \<open>(2, 1, 3)\<close>, which the
  uniqueness constraint on the ordered pair allows, the second row overwrites both entries
  of the first: the index holds \<open>(1, 2) -> 1/3\<close>, not \<open>(1, 2) -> 2\<close>.
\<close>

theorem get_unit_map_overwrite_counterexample:
  "get_unit_map [\<lparr>value_unit_from_id = 1, value_unit_to_id = 2, multiplier = 2\<rparr>,
                 \<lparr>value_unit_from_id = 2, value_unit_to_id = 1, multiplier = 3\<rparr>]
     = Inr [((1, 2), 1 / 3), ((2, 1), 3)] \<and>
   od_get [((1::nat, 2::nat), 1 / 3), ((2, 1), 3::rat)] (1, 2) \<noteq> Some 2"
  by (simp add: get_unit_map_def od_get_def)

section \<open>Properties of the mapping graph reader\<close>

lemma attribute_rows_loop_keys:
  "set (od_keys (attribute_rows_loop rows d)) =
     set (od_keys d) \<union> (\<lambda>a. normalize_string (am_feed_attribute_name a)) ` set rows"
  by (induction rows arbitrary: d) (auto simp: Let_def od_keys_od_set)

lemma value_rows_loop_keys:
  "value_rows_loop rows d = Inr m \<Longrightarrow> od_keys m = od_keys d"
proof (induction rows arbitrary: d)
  case Nil
  then show ?case by simp
next
  case (Cons v rows)
  then show ?case
    by (auto simp: Let_def od_keys_od_set dest: od_get_Some_key split: option.splits if_splits)
qed

lemma dropWhile_keeps: "x \<in> set xs \<Longrightarrow> \<not> P x \<Longrightarrow> x \<in> set (dropWhile P xs)"
  by (induction xs) auto

lemma normalize_string_keeps_IO:
  assumes "1025 \<in> set s \<or> 1105 \<in> set s"
  shows "1025 \<in> set (normalize_string s)"
proof -
  from assms obtain x where x: "x \<in> set s" "x = 1025 \<or> x = 1105" by blast
  then have ns: "\<not> py_isspace x" by (auto simp: py_isspace_def)
  from x ns have "x \<in> set (rev (dropWhile py_isspace s))"
    by (simp add: dropWhile_keeps)
  with ns have "x \<in> set (py_strip s)"
    by (simp add: py_strip_def dropWhile_keeps)
  moreover from x have "1025 \<in> set (upper_cp x)" by (auto simp: upper_cp_def)
  ultimately have "1025 \<in> set (py_upper (py_strip s))"
    by (auto simp: py_upper_def)
  then show ?thesis by (auto simp: normalize_string_def py_replace1_def)
qed

lemma standardize_str_no_IO: "1025 \<notin> set (standardize_str s)"
  by (auto simp: standardize_str_def py_replace1_def)

text \<open>
  C5. The code does not do what the claim says. The reader keys the attribute map by the
  feed attribute name trimmed, uppercased and with every no-break space replaced by a
  space, and that is all: for every included feed attribute whose name contains the
  Cyrillic letter IO (U+0401, or U+0451 before uppercasing) the key still contains U+0401,
  where the claim has U+0415. The feed fetcher's \<open>standardize_str\<close> does replace it: the
  same name compared there contains no U+0401.
\<close>

theorem get_category_attribute_map_key_keeps_IO:
  assumes built: "get_category_attribute_map c attribute_maps value_maps = Inr m"
    and row: "a \<in> set attribute_maps"
    and included: "am_category_map_pk a = c \<and> \<not> am_market_disabled a"
    and IO: "1025 \<in> set (am_feed_attribute_name a) \<or> 1105 \<in> set (am_feed_attribute_name a)"
  shows "py_replace1 160 32 (py_upper (py_strip (am_feed_attribute_name a))) \<in> set (od_keys m) \<and>
         1025 \<in> set (py_replace1 160 32 (py_upper (py_strip (am_feed_attribute_name a)))) \<and>
         1025 \<notin> set (standardize_str (am_feed_attribute_name a))"
proof -
  let ?rows = "filter (\<lambda>a. am_category_map_pk a = c \<and> \<not> am_market_disabled a) attribute_maps"
  from built have "od_keys m = od_keys (attribute_rows_loop ?rows [])"
    unfolding get_category_attribute_map_def by (rule value_rows_loop_keys)
  moreover from row included have "a \<in> set ?rows" by simp
  ultimately have "normalize_string (am_feed_attribute_name a) \<in> set (od_keys m)"
    by (simp add: attribute_rows_loop_keys)
  moreover from IO have "1025 \<in> set (normalize_string (am_feed_attribute_name a))"
    by (rule normalize_string_keeps_IO)
  ultimately show ?thesis
    by (simp add: normalize_string_def standardize_str_no_IO)
qed

text \<open>
  The feed attribute whose name is a space, U+0451, U+0436, a no-break space, \<open>x\<close> and a
  space: the only key of the map is U+0401, U+0416, a space and \<open>X\<close>.
\<close>

theorem get_category_attribute_map_key_keeps_IO_witness:
  "\<exists>m. get_category_attribute_map 7
     [\<lparr>am_pk = 1, am_category_map_pk = 7, am_feed_attribute_name = [32, 1105, 1078, 160, 120, 32],
       am_feed_attribute_unit_id = None, am_market_source_id = ascii ''85'',
       am_market_dictionary_id = None, am_market_data_type = None,
       am_market_unit_id = None, am_market_is_rich_content = False,
       am_market_ignore_data_type = False, am_market_disabled = False,
       am_marketplace_attribute_deleted = False\<rparr>] [] = Inr m \<and>
     od_keys m = [[1025, 1046, 32, 88]] \<and>
     [1025, 1046, 32, 88] \<in> set (od_keys m) \<and>
     1025 \<in> set [1025, 1046, 32, 88::nat] \<and>
     [1045, 1046, 32, 88] \<notin> set (od_keys m) \<and>
     1025 \<notin> set (standardize_str [32, 1105, 1078, 160, 120, 32])"
proof -
  let ?a = "\<lparr>am_pk = 1, am_category_map_pk = 7, am_feed_attribute_name = [32, 1105, 1078, 160, 120, 32],
       am_feed_attribute_unit_id = None, am_market_source_id = ascii ''85'',
       am_market_dictionary_id = None, am_market_data_type = None,
       am_market_unit_id = None, am_market_is_rich_content = False,
       am_market_ignore_data_type = False, am_market_disabled = False,
       am_marketplace_attribute_deleted = False\<rparr>"
  have key: "py_replace1 160 32 (py_upper (py_strip [32, 1105, 1078, 160, 120, 32]))
               = [1025, 1046, 32, 88]"
    by (simp add: py_strip_def py_isspace_def py_upper_def upper_cp_def py_replace1_def)
  obtain m where built: "get_category_attribute_map 7 [?a] [] = Inr m"
    and keys: "od_keys m = [[1025, 1046, 32, 88]]"
    using key
    by (simp add: get_category_attribute_map_def normalize_string_def truthy_id_def od_keys_def
        od_get_def)
  have row: "?a \<in> set [?a]" by simp
  have included: "am_category_map_pk ?a = 7 \<and> \<not> am_market_disabled ?a" by simp
  have IO: "1025 \<in> set (am_feed_attribute_name ?a) \<or> 1105 \<in> set (am_feed_attribute_name ?a)" by simp
  from get_category_attribute_map_key_keeps_IO [OF built row included IO] built keys key
  show ?thesis by simp
qed

section \<open>Properties of the attribute value resolver\<close>

lemma append_value_maps_mapped_with_deleted:
  "mapped_with_deleted (append_value_maps attr_name m entries result) = mapped_with_deleted result"
  by (induction entries arbitrary: result) simp_all

lemma resolve_mapping_mapped_with_deleted:
  "resolve_mapping convert idx attr_name attr_value m result = Inr result1 \<Longrightarrow>
   mapped_with_deleted result1 = mapped_with_deleted result"
  by (auto simp: resolve_mapping_def Let_def append_value_maps_mapped_with_deleted
      split: if_splits option.splits)

lemma resolve_mappings_mapped_with_deleted:
  "resolve_mappings convert idx attr_name attr_value ms result = Inr result1 \<Longrightarrow>
   mapped_with_deleted result1 = mapped_with_deleted result"
proof (induction ms arbitrary: result)
  case Nil
  then show ?case by simp
next
  case (Cons m ms)
  then show ?case
    by (auto split: sum.splits dest: resolve_mapping_mapped_with_deleted)
qed

lemma resolve_values_mapped_with_deleted:
  "resolve_values convert idx attribute_map attr_name vs result = Inr result1 \<Longrightarrow>
   mapped_with_deleted result1 = mapped_with_deleted result"
proof (induction vs arbitrary: result)
  case Nil
  then show ?case by simp
next
  case (Cons v vs)
  then show ?case
    by (fastforce split: sum.splits option.splits if_splits
        dest: resolve_mappings_mapped_with_deleted)
qed

lemma resolve_items_mapped_with_deleted:
  "resolve_items convert idx attribute_map items result = Inr result1 \<Longrightarrow>
   mapped_with_deleted result1 = mapped_with_deleted result"
proof (induction items arbitrary: result)
  case Nil
  then show ?case by simp
next
  case (Cons item items)
  obtain attr_name attr_values where item: "item = (attr_name, attr_values)"
    by (cases item)
  with Cons show ?case
    by (auto split: sum.splits dest: resolve_values_mapped_with_deleted)
qed

text \<open>
  C9. Whenever \<open>get_mapped_values\<close> returns, its result has the seventh bucket
  \<open>mapped_with_deleted\<close>, and that bucket is the empty list: nothing is ever appended to it.
\<close>

theorem get_mapped_values_mapped_with_deleted_empty:
  "get_mapped_values convert unit_rows attribute_map feed_attribute_values = Inr result \<Longrightarrow>
   mapped_with_deleted result = []"
  by (auto simp: get_mapped_values_def empty_result_def split: sum.splits
      dest: resolve_items_mapped_with_deleted)

theorem get_mapped_values_mapped_with_deleted_empty_witness:
  "get_mapped_values (\<lambda>v m. None) []
     [(ascii ''COLOR'',
       [(1, \<lparr>source_id = ascii ''10'', dictionary_id = Some 5, data_type = None, mapping_id = 1,
              from_unit_id = None, to_unit_id = None, is_rich_content = False,
              ignore_data_type = False, deleted = False,
              values_map = Some [(ascii ''RED'',
                [\<lparr>vm_value = ascii ''r'', vm_dictionary_value_id = IdStr (ascii ''2''),
                  vm_deleted = True\<rparr>])]\<rparr>)])]
     [(ascii ''COLOR'', [ascii ''red'']), (ascii ''SIZE'', [ascii ''5''])]
   = Inr \<lparr>result_values = [], unmapped_attributes = [ascii ''SIZE''],
          unmapped_value_attributes = [], empty_value_attributes = [],
          type_error_attributes = [], mapped_with_deleted = [],
          mapped_with_deleted_value = [ascii ''10'']\<rparr> \<and>
   mapped_with_deleted \<lparr>result_values = [], unmapped_attributes = [ascii ''SIZE''],
          unmapped_value_attributes = [], empty_value_attributes = [],
          type_error_attributes = [], mapped_with_deleted = [],
          mapped_with_deleted_value = [ascii ''10'']\<rparr> = ([] :: ustr list)"
proof -
  have run: "get_mapped_values (\<lambda>v m. None) []
     [(ascii ''COLOR'',
       [(1, \<lparr>source_id = ascii ''10'', dictionary_id = Some 5, data_type = None, mapping_id = 1,
              from_unit_id = None, to_unit_id = None, is_rich_content = False,
              ignore_data_type = False, deleted = False,
              values_map = Some [(ascii ''RED'',
                [\<lparr>vm_value = ascii ''r'', vm_dictionary_value_id = IdStr (ascii ''2''),
                  vm_deleted = True\<rparr>])]\<rparr>)])]
     [(ascii ''COLOR'', [ascii ''red'']), (ascii ''SIZE'', [ascii ''5''])]
   = Inr \<lparr>result_values = [], unmapped_attributes = [ascii ''SIZE''],
          unmapped_value_attributes = [], empty_value_attributes = [],
          type_error_attributes = [], mapped_with_deleted = [],
          mapped_with_deleted_value = [ascii ''10'']\<rparr>"
    by (simp add: get_mapped_values_def get_unit_map_def empty_result_def resolve_mapping_def
        truthy_id_def od_get_def od_append_def ascii_def py_upper_def upper_cp_def)
  from get_mapped_values_mapped_with_deleted_empty [OF run] run show ?thesis by simp
qed

text \<open>
  C1. The feed name \<open>COLOR\<close> fans out to two dictionary attributes. For the raw value
  \<open>red\<close> the first mapping (source id 10) resolves to a live entry; every entry of the
  second mapping (source id 20) matching that value is deleted. The resolver tests
  \<open>attr_name not in result['values']\<close>, which the first mapping has already made false, and
  so does not record 20 under \<open>mapped_with_deleted_value\<close>.
\<close>

theorem get_mapped_values_deleted_value_not_recorded:
  "get_mapped_values convert []
     [(ascii ''COLOR'',
       [(1, \<lparr>source_id = ascii ''10'', dictionary_id = Some 5, data_type = None, mapping_id = 1,
              from_unit_id = None, to_unit_id = None, is_rich_content = False,
              ignore_data_type = False, deleted = False,
              values_map = Some [(ascii ''RED'',
                [\<lparr>vm_value = ascii ''red'', vm_dictionary_value_id = IdStr (ascii ''1''),
                  vm_deleted = False\<rparr>])]\<rparr>),
        (2, \<lparr>source_id = ascii ''20'', dictionary_id = Some 6, data_type = None, mapping_id = 2,
              from_unit_id = None, to_unit_id = None, is_rich_content = False,
              ignore_data_type = False, deleted = False,
              values_map = Some [(ascii ''RED'',
                [\<lparr>vm_value = ascii ''r'', vm_dictionary_value_id = IdStr (ascii ''2''),
                  vm_deleted = True\<rparr>])]\<rparr>)])]
     [(ascii ''COLOR'', [ascii ''red''])]
   = Inr \<lparr>result_values = [(ascii ''COLOR'',
            [\<lparr>rv_value = ascii ''red'', rv_dictionary_value_id = IdStr (ascii ''1''),
              rv_deleted = Some False, attribute_source_id = ascii ''10'', rv_data_type = None,
              rv_is_rich_content = False, rv_ignore_data_type = False\<rparr>])],
          unmapped_attributes = [], unmapped_value_attributes = [], empty_value_attributes = [],
          type_error_attributes = [], mapped_with_deleted = [],
          mapped_with_deleted_value = []\<rparr>"
  by (simp add: get_mapped_values_def get_unit_map_def empty_result_def resolve_mapping_def
      truthy_id_def od_get_def od_append_def ascii_def py_upper_def upper_cp_def)

lemma get_unit_map_loop_zero:
  "u \<in> set rows \<Longrightarrow> multiplier u = 0 \<Longrightarrow> get_unit_map_loop rows result = Inl ZeroDivisionError"
  by (induction rows arbitrary: result) (auto simp: Let_def)

text \<open>
  C4. With a stored conversion of factor \<open>0\<close> the resolver raises \<open>ZeroDivisionError\<close>,
  whatever the attribute map and the feed values are: \<open>get_unit_map\<close> divides by the
  factor, and \<open>get_mapped_values\<close> calls it before it looks at any value.
\<close>

theorem get_mapped_values_zero_factor_raises:
  "u \<in> set unit_rows \<Longrightarrow> multiplier u = 0 \<Longrightarrow>
   get_mapped_values convert unit_rows attribute_map feed_attribute_values = Inl ZeroDivisionError"
  by (simp add: get_mapped_values_def get_unit_map_def get_unit_map_loop_zero)

theorem get_mapped_values_zero_factor_raises_witness:
  "get_mapped_values (\<lambda>v m. Some v)
     [\<lparr>value_unit_from_id = 1, value_unit_to_id = 2, multiplier = 0\<rparr>]
     [(ascii ''LENGTH'',
       [(1, \<lparr>source_id = ascii ''10'', dictionary_id = None, data_type = None, mapping_id = 1,
              from_unit_id = Some 1, to_unit_id = Some 2, is_rich_content = False,
              ignore_data_type = False, deleted = False, values_map = None\<rparr>)])]
     [(ascii ''LENGTH'', [ascii ''5''])]
   = (Inl ZeroDivisionError :: py_error + ustr mapped_values)"
  using get_mapped_values_zero_factor_raises
    [of "\<lparr>value_unit_from_id = 1, value_unit_to_id = 2, multiplier = 0\<rparr>"
        "[\<lparr>value_unit_from_id = 1, value_unit_to_id = 2, multiplier = 0\<rparr>]"]
  by simp

section \<open>Properties of the equal-value auto-mapper\<close>

text \<open>
  C2. One attribute mapping (id 1, feed attribute 10, dictionary 5, auto-mapping on), two
  feed values \<open>Red\<close> and \<open>RED\<close> of that attribute, one marketplace value \<open>red\<close>, no value
  mapping yet. \<open>dict(...)\<close> keyed by the uppercased text keeps only the second feed value,
  so the first run of \<open>map_attribute_equal_values\<close> stores one row, and a second run over
  the result stores another one: two runs in succession do not give what one run gives.
\<close>

theorem map_attribute_equal_values_second_run_adds_row:
  "map_attribute_equal_values py_upper 1
     \<lparr>db_attribute_maps = [\<lparr>attr_map_id = 1, attr_map_feed_attribute_id = 10, attr_map_feed_id = 3,
         attr_map_equal_values = True, attr_map_dictionary_id = Some 5, attr_map_default_value_id = None\<rparr>],
      db_feed_values = [\<lparr>fv_id = 1, fv_attribute_id = 10, fv_value = ascii ''Red''\<rparr>,
                        \<lparr>fv_id = 2, fv_attribute_id = 10, fv_value = ascii ''RED''\<rparr>],
      db_market_values = [\<lparr>mv_id = 7, mv_dictionary_id = 5, mv_source_id = None,
                           mv_value = ascii ''red'', mv_deleted = False\<rparr>],
      db_value_maps = []\<rparr>
   = Inr
     \<lparr>db_attribute_maps = [\<lparr>attr_map_id = 1, attr_map_feed_attribute_id = 10, attr_map_feed_id = 3,
         attr_map_equal_values = True, attr_map_dictionary_id = Some 5, attr_map_default_value_id = None\<rparr>],
      db_feed_values = [\<lparr>fv_id = 1, fv_attribute_id = 10, fv_value = ascii ''Red''\<rparr>,
                        \<lparr>fv_id = 2, fv_attribute_id = 10, fv_value = ascii ''RED''\<rparr>],
      db_market_values = [\<lparr>mv_id = 7, mv_dictionary_id = 5, mv_source_id = None,
                           mv_value = ascii ''red'', mv_deleted = False\<rparr>],
      db_value_maps = [\<lparr>vmap_attribute_map_id = 1, vmap_feed_attribute_value_id = 2,
                        vmap_marketplace_attribute_value_id = 7\<rparr>]\<rparr> \<and>
   map_attribute_equal_values py_upper 1
     \<lparr>db_attribute_maps = [\<lparr>attr_map_id = 1, attr_map_feed_attribute_id = 10, attr_map_feed_id = 3,
         attr_map_equal_values = True, attr_map_dictionary_id = Some 5, attr_map_default_value_id = None\<rparr>],
      db_feed_values = [\<lparr>fv_id = 1, fv_attribute_id = 10, fv_value = ascii ''Red''\<rparr>,
                        \<lparr>fv_id = 2, fv_attribute_id = 10, fv_value = ascii ''RED''\<rparr>],
      db_market_values = [\<lparr>mv_id = 7, mv_dictionary_id = 5, mv_source_id = None,
                           mv_value = ascii ''red'', mv_deleted = False\<rparr>],
      db_value_maps = [\<lparr>vmap_attribute_map_id = 1, vmap_feed_attribute_value_id = 2,
                        vmap_marketplace_attribute_value_id = 7\<rparr>]\<rparr>
   = Inr
     \<lparr>db_attribute_maps = [\<lparr>attr_map_id = 1, attr_map_feed_attribute_id = 10, attr_map_feed_id = 3,
         attr_map_equal_values = True, attr_map_dictionary_id = Some 5, attr_map_default_value_id = None\<rparr>],
      db_feed_values = [\<lparr>fv_id = 1, fv_attribute_id = 10, fv_value = ascii ''Red''\<rparr>,
                        \<lparr>fv_id = 2, fv_attribute_id = 10, fv_value = ascii ''RED''\<rparr>],
      db_market_values = [\<lparr>mv_id = 7, mv_dictionary_id = 5, mv_source_id = None,
                           mv_value = ascii ''red'', mv_deleted = False\<rparr>],
      db_value_maps = [\<lparr>vmap_attribute_map_id = 1, vmap_feed_attribute_value_id = 2,
                        vmap_marketplace_attribute_value_id = 7\<rparr>,
                       \<lparr>vmap_attribute_map_id = 1, vmap_feed_attribute_value_id = 1,
                        vmap_marketplace_attribute_value_id = 7\<rparr>]\<rparr>"
  by (simp add: map_attribute_equal_values_def py_dict_def truthy_id_def od_get_def
      value_map_create_def ascii_def py_upper_def upper_cp_def)

section \<open>Properties of the offer attribute builder\<close>

lemma py_int_constants:
  "py_int (ascii ''8292'') = Some 8292" "py_int (ascii ''10289'') = Some 10289"
  "py_int (ascii ''4497'') = Some 4497" "py_int (ascii ''9454'') = Some 9454"
  "py_int (ascii ''9455'') = Some 9455" "py_int (ascii ''9456'') = Some 9456"
  "py_int (ascii ''9048'') = Some 9048" "py_int (ascii ''4191'') = Some 4191"
  "py_int (ascii ''4180'') = Some 4180" "py_int (ascii ''9024'') = Some 9024"
  "py_int (ascii ''0'') = Some 0"
  by (simp_all add: py_int_def py_strip_def py_isspace_def is_digit_def ascii_def)

lemma OZON_ATTRIBUTES_IDS_int: "i \<in> set (OZON_ATTRIBUTES_IDS k) \<Longrightarrow> py_int i \<noteq> None"
  by (cases k) (auto simp: py_int_constants)

lemma add_attribute_value_default_id:
  assumes "py_int i = Some key"
  shows "add_attribute_value i v (Some (IdStr (ascii ''0''))) self =
     Inr (self\<lparr>self_attributes_values :=
            od_set key
              ((case od_get (self_attributes_values self) key of
                  None \<Rightarrow> \<lparr>av_complex_id = 0, av_id = key, av_values = []\<rparr>
                | Some e \<Rightarrow> e)
               \<lparr>av_values :=
                  av_values (case od_get (self_attributes_values self) key of
                               None \<Rightarrow> \<lparr>av_complex_id = 0, av_id = key, av_values = []\<rparr>
                             | Some e \<Rightarrow> e) @ [(v, 0)]\<rparr>)
              (self_attributes_values self),
          self_required_ozon_attributes := removeAll i (self_required_ozon_attributes self)\<rparr>)"
  using assms
  by (simp add: add_attribute_value_def int_of_dvid_def py_int_constants Let_def
      remove_ozon_attribute_from_required_def)

lemma add_error_other: "i \<noteq> a \<Longrightarrow> od_get (add_error ozon i e errors) a = od_get errors a"
  by (simp add: add_error_def od_get_od_set split: option.splits)

lemma add_error_same:
  "od_get ozon a = Some d \<Longrightarrow>
   od_get (add_error ozon a e errors) a = (if oa_required d then Some e else od_get errors a)"
  by (simp add: add_error_def od_get_od_set)

text \<open>What one round of the loop does for the empty string.\<close>

lemma add_if_exists_loop_empty_step:
  assumes "od_get (self_ozon_attributes self) i \<noteq> None" and "py_int i = Some key"
  shows "add_if_exists_loop (i # rest) (PStr []) (self, errors) =
     add_if_exists_loop rest (PStr [])
       (self\<lparr>self_attributes_values :=
            od_set key
              ((case od_get (self_attributes_values self) key of
                  None \<Rightarrow> \<lparr>av_complex_id = 0, av_id = key, av_values = []\<rparr>
                | Some e \<Rightarrow> e)
               \<lparr>av_values :=
                  av_values (case od_get (self_attributes_values self) key of
                               None \<Rightarrow> \<lparr>av_complex_id = 0, av_id = key, av_values = []\<rparr>
                             | Some e \<Rightarrow> e) @ [(PStr [], 0)]\<rparr>)
              (self_attributes_values self),
          self_required_ozon_attributes := removeAll i (self_required_ozon_attributes self)\<rparr>,
        add_error (self_ozon_attributes self) i (ascii ''empty'') errors)"
  using assms by (auto simp: add_attribute_value_default_id Let_def)

lemma add_if_exists_loop_empty:
  assumes ints: "\<forall>i \<in> set ids. py_int i \<noteq> None"
    and data: "od_get (self_ozon_attributes self) a = Some d"
    and key: "py_int a = Some key"
    and start: "a \<in> set ids \<or>
       (a \<notin> set (self_required_ozon_attributes self) \<and>
        (oa_required d \<longrightarrow> od_get errors a = Some (ascii ''empty'')) \<and>
        (\<exists>entry. od_get (self_attributes_values self) key = Some entry \<and>
           av_values entry \<noteq> [] \<and> last (av_values entry) = (PStr [], 0)))"
  shows "\<exists>self1 errors1 entry.
       add_if_exists_loop ids (PStr []) (self, errors) = Inr (self1, errors1) \<and>
       a \<notin> set (self_required_ozon_attributes self1) \<and>
       (oa_required d \<longrightarrow> od_get errors1 a = Some (ascii ''empty'')) \<and>
       od_get (self_attributes_values self1) key = Some entry \<and>
       av_values entry \<noteq> [] \<and> last (av_values entry) = (PStr [], 0)"
  using ints data start
proof (induction ids arbitrary: self errors)
  case Nil
  then show ?case by auto
next
  case (Cons i ids)
  show ?case
  proof (cases "od_get (self_ozon_attributes self) i = None")
    case True
    with Cons.prems(2) have "i \<noteq> a" by auto
    with Cons.prems True Cons.IH [of self errors] show ?thesis by auto
  next
    case False
    from Cons.prems(1) obtain ki where ki: "py_int i = Some ki" by auto
    let ?entry = "(case od_get (self_attributes_values self) ki of
                  None \<Rightarrow> \<lparr>av_complex_id = 0, av_id = ki, av_values = []\<rparr>
                | Some e \<Rightarrow> e)"
    let ?self = "self\<lparr>self_attributes_values :=
            od_set ki (?entry\<lparr>av_values := av_values ?entry @ [(PStr [], 0)]\<rparr>)
              (self_attributes_values self),
          self_required_ozon_attributes := removeAll i (self_required_ozon_attributes self)\<rparr>"
    let ?errors = "add_error (self_ozon_attributes self) i (ascii ''empty'') errors"
    have step: "add_if_exists_loop (i # ids) (PStr []) (self, errors) =
                add_if_exists_loop ids (PStr []) (?self, ?errors)"
      using False ki by (rule add_if_exists_loop_empty_step)
    have ints': "\<forall>i \<in> set ids. py_int i \<noteq> None" using Cons.prems(1) by simp
    have data': "od_get (self_ozon_attributes ?self) a = Some d" using Cons.prems(2) by simp
    have start': "a \<in> set ids \<or>
       (a \<notin> set (self_required_ozon_attributes ?self) \<and>
        (oa_required d \<longrightarrow> od_get ?errors a = Some (ascii ''empty'')) \<and>
        (\<exists>entry. od_get (self_attributes_values ?self) key = Some entry \<and>
           av_values entry \<noteq> [] \<and> last (av_values entry) = (PStr [], 0)))"
    proof (cases "i = a")
      case True
      with ki key have "ki = key" by simp
      with True Cons.prems(2) show ?thesis
        by (simp add: od_get_od_set add_error_same)
    next
      case neq: False
      show ?thesis
      proof (cases "a \<in> set ids")
        case True
        then show ?thesis by simp
      next
        case False
        with neq Cons.prems(3) have inv:
          "a \<notin> set (self_required_ozon_attributes self)"
          "oa_required d \<longrightarrow> od_get errors a = Some (ascii ''empty'')"
          "\<exists>entry. od_get (self_attributes_values self) key = Some entry \<and>
             av_values entry \<noteq> [] \<and> last (av_values entry) = (PStr [], 0)"
          by auto
        from inv(3) have "\<exists>entry. od_get (self_attributes_values ?self) key = Some entry \<and>
             av_values entry \<noteq> [] \<and> last (av_values entry) = (PStr [], 0)"
          by (cases "ki = key") (auto simp: od_get_od_set)
        with inv(1,2) neq show ?thesis
          by (simp add: add_error_other)
      qed
    qed
    from Cons.IH [OF ints' data' start'] step show ?thesis by simp
  qed
qed

lemma add_if_exists_loop_errors_not_required:
  assumes "add_if_exists_loop ids v (self, errors) = Inr (self1, errors1)"
    and "od_get (self_ozon_attributes self) a = Some d" and "\<not> oa_required d"
  shows "od_get errors1 a = od_get errors a"
  using assms
proof (induction ids arbitrary: self errors)
  case Nil
  then show ?case by simp
next
  case (Cons i ids)
  have unchanged: "od_get (add_error (self_ozon_attributes self) i e errors) a = od_get errors a" for e
    using Cons.prems(2,3) by (cases "i = a") (simp_all add: add_error_same add_error_other)
  show ?case
  proof (cases "od_get (self_ozon_attributes self) i = None \<or> v = PNone")
    case True
    with Cons.prems Cons.IH [of self errors] unchanged show ?thesis
      by (auto split: if_splits)
  next
    case False
    with Cons.prems(1) obtain self2 where
      add: "add_attribute_value i v (Some (IdStr (ascii ''0''))) self = Inr self2"
      and rest: "add_if_exists_loop ids v (self2,
          if v = PStr [] then add_error (self_ozon_attributes self) i (ascii ''empty'') errors else errors)
        = Inr (self1, errors1)"
      by (auto simp: Let_def split: sum.splits)
    from add have "self_ozon_attributes self2 = self_ozon_attributes self"
      by (auto simp: add_attribute_value_def Let_def remove_ozon_attribute_from_required_def
          split: option.splits sum.splits)
    with Cons.prems(2) have data2: "od_get (self_ozon_attributes self2) a = Some d" by simp
    from Cons.IH [OF rest data2 Cons.prems(3)] unchanged show ?thesis
      by (simp split: if_splits)
  qed
qed

lemma add_if_exists_loop_None:
  assumes "find (\<lambda>i. od_get (self_ozon_attributes self) i \<noteq> None) ids = Some a"
  shows "add_if_exists_loop ids PNone (self, errors) =
         Inr (self, add_error (self_ozon_attributes self) a (ascii ''missing'') errors)"
  using assms by (induction ids) (auto split: if_splits)

text \<open>
  C10. In the fallback \<open>add_if_exists\<close>, for a source id of the key that the category has:
  the empty string is recorded as \<open>empty\<close> when the attribute is required, is still
  assigned as the last value of the attribute, and the attribute leaves the outstanding
  required attributes; \<open>None\<close>, met at the first source id the category has, records
  \<open>missing\<close> when the attribute is required and assigns nothing: the manager is unchanged.
\<close>

theorem add_if_exists_empty_and_None:
  assumes known: "a \<in> set (OZON_ATTRIBUTES_IDS k)"
    and data: "od_get (self_ozon_attributes self) a = Some d"
  shows "(\<exists>self1 errors1 key entry.
            add_if_exists k (PStr []) (self, errors) = Inr (self1, errors1) \<and>
            od_get errors1 a = (if oa_required d then Some (ascii ''empty'') else od_get errors a) \<and>
            py_int a = Some key \<and>
            od_get (self_attributes_values self1) key = Some entry \<and>
            av_values entry \<noteq> [] \<and> last (av_values entry) = (PStr [], 0) \<and>
            a \<notin> set (self_required_ozon_attributes self1)) \<and>
         (find (\<lambda>i. od_get (self_ozon_attributes self) i \<noteq> None) (OZON_ATTRIBUTES_IDS k) = Some a \<longrightarrow>
            add_if_exists k PNone (self, errors) =
              Inr (self, if oa_required d then od_set a (ascii ''missing'') errors else errors))"
proof
  from known obtain key where key: "py_int a = Some key"
    using OZON_ATTRIBUTES_IDS_int by blast
  have ints: "\<forall>i \<in> set (OZON_ATTRIBUTES_IDS k). py_int i \<noteq> None"
    using OZON_ATTRIBUTES_IDS_int by blast
  from add_if_exists_loop_empty [OF ints data key, of errors] known
  obtain self1 errors1 entry where run:
    "add_if_exists_loop (OZON_ATTRIBUTES_IDS k) (PStr []) (self, errors) = Inr (self1, errors1)"
    "a \<notin> set (self_required_ozon_attributes self1)"
    "oa_required d \<longrightarrow> od_get errors1 a = Some (ascii ''empty'')"
    "od_get (self_attributes_values self1) key = Some entry"
    "av_values entry \<noteq> []" "last (av_values entry) = (PStr [], 0)"
    by blast
  have "od_get errors1 a = (if oa_required d then Some (ascii ''empty'') else od_get errors a)"
    using run(3) add_if_exists_loop_errors_not_required [OF run(1) data] by simp
  with run key show "\<exists>self1 errors1 key entry.
            add_if_exists k (PStr []) (self, errors) = Inr (self1, errors1) \<and>
            od_get errors1 a = (if oa_required d then Some (ascii ''empty'') else od_get errors a) \<and>
            py_int a = Some key \<and>
            od_get (self_attributes_values self1) key = Some entry \<and>
            av_values entry \<noteq> [] \<and> last (av_values entry) = (PStr [], 0) \<and>
            a \<notin> set (self_required_ozon_attributes self1)"
    by (simp add: add_if_exists_def)
next
  show "find (\<lambda>i. od_get (self_ozon_attributes self) i \<noteq> None) (OZON_ATTRIBUTES_IDS k) = Some a \<longrightarrow>
            add_if_exists k PNone (self, errors) =
              Inr (self, if oa_required d then od_set a (ascii ''missing'') errors else errors)"
    using data by (simp add: add_if_exists_def add_if_exists_loop_None add_error_def)
qed

theorem add_if_exists_empty_and_None_witness:
  "add_if_exists VendorCode (PStr [])
     (\<lparr>self_attribute_map = [],
       self_ozon_attributes = [(ascii ''9024'', \<lparr>oa_required = True, oa_disabled = False,
                                                 oa_dictionary_id = None, oa_name = ascii ''Code''\<rparr>)],
       self_market_category_deleted = False, self_ozon_category_id = ascii ''17'',
       self_required_ozon_attributes = [ascii ''9024''], self_attributes_values = [],
       self_complex_attributes_values = [], self_attributes_errors = None, self_tags_errors = []\<rparr>, [])
   = Inr
     (\<lparr>self_attribute_map = [],
       self_ozon_attributes = [(ascii ''9024'', \<lparr>oa_required = True, oa_disabled = False,
                                                 oa_dictionary_id = None, oa_name = ascii ''Code''\<rparr>)],
       self_market_category_deleted = False, self_ozon_category_id = ascii ''17'',
       self_required_ozon_attributes = [],
       self_attributes_values = [(9024, \<lparr>av_complex_id = 0, av_id = 9024, av_values = [(PStr [], 0)]\<rparr>)],
       self_complex_attributes_values = [], self_attributes_errors = None, self_tags_errors = []\<rparr>,
      [(ascii ''9024'', ascii ''empty'')]) \<and>
   add_if_exists VendorCode PNone
     (\<lparr>self_attribute_map = [],
       self_ozon_attributes = [(ascii ''9024'', \<lparr>oa_required = True, oa_disabled = False,
                                                 oa_dictionary_id = None, oa_name = ascii ''Code''\<rparr>)],
       self_market_category_deleted = False, self_ozon_category_id = ascii ''17'',
       self_required_ozon_attributes = [ascii ''9024''], self_attributes_values = [],
       self_complex_attributes_values = [], self_attributes_errors = None, self_tags_errors = []\<rparr>, [])
   = Inr
     (\<lparr>self_attribute_map = [],
       self_ozon_attributes = [(ascii ''9024'', \<lparr>oa_required = True, oa_disabled = False,
                                                 oa_dictionary_id = None, oa_name = ascii ''Code''\<rparr>)],
       self_market_category_deleted = False, self_ozon_category_id = ascii ''17'',
       self_required_ozon_attributes = [ascii ''9024''], self_attributes_values = [],
       self_complex_attributes_values = [], self_attributes_errors = None, self_tags_errors = []\<rparr>,
      [(ascii ''9024'', ascii ''missing'')])"
proof -
  let ?d = "\<lparr>oa_required = True, oa_disabled = False, oa_dictionary_id = None, oa_name = ascii ''Code''\<rparr>"
  let ?self = "\<lparr>self_attribute_map = [],
       self_ozon_attributes = [(ascii ''9024'', ?d)],
       self_market_category_deleted = False, self_ozon_category_id = ascii ''17'',
       self_required_ozon_attributes = [ascii ''9024''], self_attributes_values = [],
       self_complex_attributes_values = [], self_attributes_errors = None, self_tags_errors = []\<rparr>"
  have known: "ascii ''9024'' \<in> set (OZON_ATTRIBUTES_IDS VendorCode)" by simp
  have data: "od_get (self_ozon_attributes ?self) (ascii ''9024'') = Some ?d"
    by (simp add: od_get_def)
  have first: "find (\<lambda>i. od_get (self_ozon_attributes ?self) i \<noteq> None) (OZON_ATTRIBUTES_IDS VendorCode)
                 = Some (ascii ''9024'')"
    by (simp add: od_get_def)
  have run: "add_if_exists VendorCode (PStr []) (?self, []) = Inr
     (?self\<lparr>self_required_ozon_attributes := [],
       self_attributes_values := [(9024, \<lparr>av_complex_id = 0, av_id = 9024, av_values = [(PStr [], 0)]\<rparr>)]\<rparr>,
      [(ascii ''9024'', ascii ''empty'')])"
    by (simp add: add_if_exists_def add_attribute_value_default_id [OF py_int_constants(10)]
        add_error_def od_get_def)
  from add_if_exists_empty_and_None [OF known data, of "[]"] first run
  show ?thesis by (simp add: od_get_def)
qed

subsection \<open>Customs codes\<close>

text \<open>
  C6. The category has the required customs-code attribute 22232 with dictionary 9, whose
  only live value \<open>847130 - Laptops\<close> has the extracted code \<open>847130\<close>. For the offer
  code \<open>8471 30 000 0\<close> the loop compares the code as it is written, spaces included:
  no prefix of at least four characters is \<open>847130\<close>, and the fallback \<open>847100\<close> is no
  key either, so nothing is assigned and the attribute gets the error \<open>not_found\<close>. The
  same code written without spaces resolves to the dictionary value.
\<close>

theorem add_tn_ved_codes_spaced_code_not_found:
  "build_values_by_code
     [\<lparr>mv_id = 4, mv_dictionary_id = 9, mv_source_id = Some (ascii ''971''),
       mv_value = ascii ''847130 - Laptops'', mv_deleted = False\<rparr>] (Some 9)
   = [(ascii ''847130'', (ascii ''847130 - Laptops'', Some (ascii ''971'')))] \<and>
   add_tn_ved_codes
     [\<lparr>mv_id = 4, mv_dictionary_id = 9, mv_source_id = Some (ascii ''971''),
       mv_value = ascii ''847130 - Laptops'', mv_deleted = False\<rparr>]
     [(ascii ''tn-ved-codes'', PDict [(ascii ''tn-ved-code'', PStr (ascii ''8471 30 000 0''))])]
     \<lparr>self_attribute_map = [],
      self_ozon_attributes = [(ascii ''22232'', \<lparr>oa_required = True, oa_disabled = False,
                                oa_dictionary_id = Some 9, oa_name = TN_VED_CODE_SUBSTRING\<rparr>)],
      self_market_category_deleted = False, self_ozon_category_id = ascii ''17'',
      self_required_ozon_attributes = [ascii ''22232''], self_attributes_values = [],
      self_complex_attributes_values = [], self_attributes_errors = None, self_tags_errors = []\<rparr>
   = Inr
     (\<lparr>self_attribute_map = [],
       self_ozon_attributes = [(ascii ''22232'', \<lparr>oa_required = True, oa_disabled = False,
                                 oa_dictionary_id = Some 9, oa_name = TN_VED_CODE_SUBSTRING\<rparr>)],
       self_market_category_deleted = False, self_ozon_category_id = ascii ''17'',
       self_required_ozon_attributes = [ascii ''22232''], self_attributes_values = [],
       self_complex_attributes_values = [], self_attributes_errors = None, self_tags_errors = []\<rparr>,
      [(ascii ''22232'', ascii ''not_found'')]) \<and>
   add_tn_ved_codes
     [\<lparr>mv_id = 4, mv_dictionary_id = 9, mv_source_id = Some (ascii ''971''),
       mv_value = ascii ''847130 - Laptops'', mv_deleted = False\<rparr>]
     [(ascii ''tn-ved-codes'', PDict [(ascii ''tn-ved-code'', PStr (ascii ''8471300000''))])]
     \<lparr>self_attribute_map = [],
      self_ozon_attributes = [(ascii ''22232'', \<lparr>oa_required = True, oa_disabled = False,
                                oa_dictionary_id = Some 9, oa_name = TN_VED_CODE_SUBSTRING\<rparr>)],
      self_market_category_deleted = False, self_ozon_category_id = ascii ''17'',
      self_required_ozon_attributes = [ascii ''22232''], self_attributes_values = [],
      self_complex_attributes_values = [], self_attributes_errors = None, self_tags_errors = []\<rparr>
   = Inr
     (\<lparr>self_attribute_map = [],
       self_ozon_attributes = [(ascii ''22232'', \<lparr>oa_required = True, oa_disabled = False,
                                 oa_dictionary_id = Some 9, oa_name = TN_VED_CODE_SUBSTRING\<rparr>)],
       self_market_category_deleted = False, self_ozon_category_id = ascii ''17'',
       self_required_ozon_attributes = [],
       self_attributes_values =
         [(22232, \<lparr>av_complex_id = 0, av_id = 22232,
                    av_values = [(PStr (ascii ''847130 - Laptops''), 971)]\<rparr>)],
       self_complex_attributes_values = [], self_attributes_errors = None, self_tags_errors = []\<rparr>,
      [])"
proof -
  have vbc: "build_values_by_code
     [\<lparr>mv_id = 4, mv_dictionary_id = 9, mv_source_id = Some (ascii ''971''),
       mv_value = ascii ''847130 - Laptops'', mv_deleted = False\<rparr>] (Some 9)
   = [(ascii ''847130'', (ascii ''847130 - Laptops'', Some (ascii ''971'')))]"
    by (simp add: build_values_by_code_def extract_tn_ved_code_def match_code_here_def
        tn_ved_class_def is_digit_def ascii_def)
  have spaced: "tn_ved_lookup [(ascii ''847130'', (ascii ''847130 - Laptops'', Some (ascii ''971'')))]
                  (ascii ''8471 30 000 0'') = None"
    by (simp add: tn_ved_lookup_def tn_ved_while.simps ascii_def od_get_def)
  have plain: "tn_ved_lookup [(ascii ''847130'', (ascii ''847130 - Laptops'', Some (ascii ''971'')))]
                  (ascii ''8471300000'') = Some (ascii ''847130 - Laptops'', Some (ascii ''971''))"
    by (simp add: tn_ved_lookup_def tn_ved_while.simps ascii_def od_get_def)
  have ints: "py_int (ascii ''22232'') = Some 22232" "py_int (ascii ''971'') = Some 971"
    by (simp_all add: py_int_def py_strip_def py_isspace_def is_digit_def ascii_def)
  have sub: "py_contains TN_VED_CODE_SUBSTRING TN_VED_CODE_SUBSTRING"
    by (simp add: TN_VED_CODE_SUBSTRING_def)
  have codes: "offer_tn_ved_codes [(ascii ''tn-ved-codes'', PDict [(ascii ''tn-ved-code'', PStr c)])] = [PStr c]" for c
    by (simp add: offer_tn_ved_codes_def get_default_def offer_get_def od_get_def)
  show ?thesis
    by (simp add: vbc add_tn_ved_codes_def codes sub spaced plain add_tn_ved_entry_def
        add_attribute_value_def ints int_of_dvid_def remove_ozon_attribute_from_required_def
        od_get_def Let_def)
qed

subsection \<open>Final consolidation\<close>

lemma consolidate_loop_keeps:
  "consolidate_loop ozon mappings fpv rs errors = Inr final \<Longrightarrow> od_get errors r = Some e \<Longrightarrow>
   od_get final r = Some e"
proof (induction rs arbitrary: errors)
  case Nil
  then show ?case by simp
next
  case (Cons q rs)
  show ?case
  proof (cases "od_get errors q = None")
    case False
    with Cons show ?thesis by simp
  next
    case True
    with Cons.prems(2) have neq: "r \<noteq> q" by auto
    from Cons.prems(1) True obtain d where
      d: "od_get ozon q = Some d"
      and run: "consolidate_loop ozon mappings fpv rs
                 (od_set q (required_error d mappings fpv q) errors) = Inr final"
      by (cases "od_get ozon q") simp_all
    from neq Cons.prems(2) have "od_get (od_set q (required_error d mappings fpv q) errors) r = Some e"
      by (simp add: od_get_od_set)
    with run show ?thesis by (rule Cons.IH)
  qed
qed

lemma consolidate_loop_classifies:
  assumes "consolidate_loop ozon mappings fpv rs errors = Inr final"
    and "r \<in> set rs" and "od_get errors r = None"
  shows "\<exists>d. od_get ozon r = Some d \<and> od_get final r = Some (required_error d mappings fpv r)"
  using assms
proof (induction rs arbitrary: errors)
  case Nil
  then show ?case by simp
next
  case (Cons q rs)
  show ?case
  proof (cases "q = r")
    case True
    from Cons.prems(1,3) True obtain d where
      d: "od_get ozon r = Some d"
      and run: "consolidate_loop ozon mappings fpv rs
                 (od_set r (required_error d mappings fpv r) errors) = Inr final"
      by (cases "od_get ozon r") simp_all
    have "od_get (od_set r (required_error d mappings fpv r) errors) r
            = Some (required_error d mappings fpv r)"
      by (simp add: od_get_od_set)
    with run have "od_get final r = Some (required_error d mappings fpv r)"
      by (rule consolidate_loop_keeps)
    with d show ?thesis by simp
  next
    case False
    with Cons.prems(2) have inr: "r \<in> set rs" by simp
    show ?thesis
    proof (cases "od_get errors q = None")
      case skip: False
      with Cons.prems(1) have "consolidate_loop ozon mappings fpv rs errors = Inr final" by simp
      from Cons.IH [OF this inr Cons.prems(3)] show ?thesis .
    next
      case True
      with Cons.prems(1) obtain d where
        run: "consolidate_loop ozon mappings fpv rs
                 (od_set q (required_error d mappings fpv q) errors) = Inr final"
        by (cases "od_get ozon q") simp_all
      from False Cons.prems(3) have "od_get (od_set q (required_error d mappings fpv q) errors) r = None"
        by (simp add: od_get_od_set)
      from Cons.IH [OF run inr this] show ?thesis .
    qed
  qed
qed

lemma consolidate_loop_other:
  "consolidate_loop ozon mappings fpv rs errors = Inr final \<Longrightarrow> r \<notin> set rs \<Longrightarrow>
   od_get final r = od_get errors r"
proof (induction rs arbitrary: errors)
  case Nil
  then show ?case by simp
next
  case (Cons q rs)
  from Cons.prems(2) have neq: "r \<noteq> q" and notin: "r \<notin> set rs" by auto
  show ?case
  proof (cases "od_get errors q = None")
    case False
    with Cons.prems(1) have "consolidate_loop ozon mappings fpv rs errors = Inr final" by simp
    then show ?thesis using notin by (rule Cons.IH)
  next
    case True
    with Cons.prems(1) obtain d where
      run: "consolidate_loop ozon mappings fpv rs
                 (od_set q (required_error d mappings fpv q) errors) = Inr final"
      by (cases "od_get ozon q") simp_all
    from Cons.IH [OF run notin] neq show ?thesis by (simp add: od_get_od_set)
  qed
qed

text \<open>
  C3 (as amended). The final consolidation starts by taking the type attribute 8229 out of
  the outstanding list, whether or not it received a value, and gives it no error: its
  entry in the errors is what it was. Every other required attribute still outstanding
  keeps the error an earlier step recorded for it, whatever it is; one with no earlier
  error is given exactly one error, by this precedence: \<open>logical\<close> when the marketplace
  attribute is disabled (also when it is unmapped), else \<open>unmapped\<close> when its source id is
  no key of the mappings built from the attribute map, else \<open>missing\<close> when the mapped
  feed attribute name is not among the offer's parameters and tags, else \<open>unknown err\<close>.
\<close>

theorem consolidate_required_classification:
  assumes run: "consolidate_required (remove_ozon_attribute_from_required TYPE_SOURCE_ID self)
                  feed_params_values errors = Inr final"
  shows "od_get final TYPE_SOURCE_ID = od_get errors TYPE_SOURCE_ID \<and>
         (\<forall>r \<in> set (self_required_ozon_attributes self). r \<noteq> TYPE_SOURCE_ID \<longrightarrow>
            (\<forall>e. od_get errors r = Some e \<longrightarrow> od_get final r = Some e) \<and>
            (od_get errors r = None \<longrightarrow>
               (\<exists>d. od_get (self_ozon_attributes self) r = Some d \<and>
                  od_get final r = Some
                    (if oa_disabled d then ascii ''logical''
                     else case od_get (build_mappings (self_attribute_map self)) r of
                            None \<Rightarrow> ascii ''unmapped''
                          | Some (feed_attribute_name, map_id) \<Rightarrow>
                              if od_get feed_params_values feed_attribute_name = None
                              then ascii ''missing'' else ascii ''unknown err''))))"
proof -
  let ?rs = "removeAll TYPE_SOURCE_ID (self_required_ozon_attributes self)"
  from run have loop:
    "consolidate_loop (self_ozon_attributes self) (build_mappings (self_attribute_map self))
       feed_params_values ?rs errors = Inr final"
    by (simp add: consolidate_required_def remove_ozon_attribute_from_required_def)
  have "TYPE_SOURCE_ID \<notin> set ?rs" by simp
  with loop have type_kept: "od_get final TYPE_SOURCE_ID = od_get errors TYPE_SOURCE_ID"
    by (rule consolidate_loop_other)
  have keeps: "od_get final r = Some e" if "od_get errors r = Some e" for r e
    using loop that by (rule consolidate_loop_keeps)
  have classifies:
    "\<exists>d. od_get (self_ozon_attributes self) r = Some d \<and>
               od_get final r = Some
                 (if oa_disabled d then ascii ''logical''
                  else case od_get (build_mappings (self_attribute_map self)) r of
                         None \<Rightarrow> ascii ''unmapped''
                       | Some (feed_attribute_name, map_id) \<Rightarrow>
                           if od_get feed_params_values feed_attribute_name = None
                           then ascii ''missing'' else ascii ''unknown err'')"
    if "r \<in> set (self_required_ozon_attributes self)" "r \<noteq> TYPE_SOURCE_ID"
      "od_get errors r = None" for r
  proof -
    from that have "r \<in> set ?rs" by simp
    with loop
    have "\<exists>d. od_get (self_ozon_attributes self) r = Some d \<and>
          od_get final r = Some (required_error d (build_mappings (self_attribute_map self))
                                   feed_params_values r)"
      using that(3) by (rule consolidate_loop_classifies)
    then show ?thesis by (simp add: required_error_def)
  qed
  from type_kept keeps classifies show ?thesis by blast
qed

text \<open>
  The category requires the attributes 85 (mapped to the feed attribute \<open>COLOR\<close>, which the
  offer lacks), 86 (disabled) and 8229, and none has a value or an earlier error: 85 ends
  with \<open>missing\<close>, 86 with \<open>logical\<close> and 8229 with no error.
\<close>

theorem consolidate_required_classification_witness:
  "consolidate_required
     (remove_ozon_attribute_from_required TYPE_SOURCE_ID
     \<lparr>self_attribute_map =
        [(ascii ''COLOR'',
          [(1, \<lparr>source_id = ascii ''85'', dictionary_id = None, data_type = None, mapping_id = 1,
                 from_unit_id = None, to_unit_id = None, is_rich_content = False,
                 ignore_data_type = False, deleted = False, values_map = None\<rparr>)])],
      self_ozon_attributes =
        [(ascii ''85'', \<lparr>oa_required = True, oa_disabled = False, oa_dictionary_id = None,
                         oa_name = ascii ''Color''\<rparr>),
         (ascii ''86'', \<lparr>oa_required = True, oa_disabled = True, oa_dictionary_id = None,
                         oa_name = ascii ''Size''\<rparr>),
         (ascii ''8229'', \<lparr>oa_required = True, oa_disabled = False, oa_dictionary_id = None,
                           oa_name = ascii ''Type''\<rparr>)],
      self_market_category_deleted = False, self_ozon_category_id = ascii ''17'',
      self_required_ozon_attributes = [ascii ''85'', ascii ''86'', ascii ''8229''],
      self_attributes_values = [],
      self_complex_attributes_values = [], self_attributes_errors = None, self_tags_errors = []\<rparr>)
     [(ascii ''WEIGHT'', [ascii ''5''])] []
   = Inr [(ascii ''85'', ascii ''missing''), (ascii ''86'', ascii ''logical'')] \<and>
   od_get [(ascii ''85'', ascii ''missing''), (ascii ''86'', ascii ''logical'')] (ascii ''86'')
   = Some (ascii ''logical'') \<and>
   od_get [(ascii ''85'', ascii ''missing''), (ascii ''86'', ascii ''logical'')] (ascii ''8229'')
   = None"
proof -
  let ?self = "\<lparr>self_attribute_map =
        [(ascii ''COLOR'',
          [(1, \<lparr>source_id = ascii ''85'', dictionary_id = None, data_type = None, mapping_id = 1,
                 from_unit_id = None, to_unit_id = None, is_rich_content = False,
                 ignore_data_type = False, deleted = False, values_map = None\<rparr>)])],
      self_ozon_attributes =
        [(ascii ''85'', \<lparr>oa_required = True, oa_disabled = False, oa_dictionary_id = None,
                         oa_name = ascii ''Color''\<rparr>),
         (ascii ''86'', \<lparr>oa_required = True, oa_disabled = True, oa_dictionary_id = None,
                         oa_name = ascii ''Size''\<rparr>),
         (ascii ''8229'', \<lparr>oa_required = True, oa_disabled = False, oa_dictionary_id = None,
                           oa_name = ascii ''Type''\<rparr>)],
      self_market_category_deleted = False, self_ozon_category_id = ascii ''17'',
      self_required_ozon_attributes = [ascii ''85'', ascii ''86'', ascii ''8229''],
      self_attributes_values = [],
      self_complex_attributes_values = [], self_attributes_errors = None, self_tags_errors = []\<rparr>"
  have run: "consolidate_required (remove_ozon_attribute_from_required TYPE_SOURCE_ID ?self)
               [(ascii ''WEIGHT'', [ascii ''5''])] []
       = Inr [(ascii ''85'', ascii ''missing''), (ascii ''86'', ascii ''logical'')]"
    by (simp add: consolidate_required_def remove_ozon_attribute_from_required_def
        TYPE_SOURCE_ID_def build_mappings_def required_error_def od_get_def ascii_def)
  have outstanding: "ascii ''86'' \<in> set (self_required_ozon_attributes ?self)" by simp
  have other: "ascii ''86'' \<noteq> TYPE_SOURCE_ID" by (simp add: TYPE_SOURCE_ID_def ascii_def)
  from consolidate_required_classification [OF run] outstanding other run show ?thesis
    by (simp add: od_get_def ascii_def TYPE_SOURCE_ID_def)
qed

text \<open>
  C3 (as stated) fails: the category has the required and disabled attribute 9024, and the
  offer has no \<open>vendorCode\<close>. The fallback \<open>add_if_exists\<close> records \<open>missing\<close> for it, the
  consolidation skips an attribute that has an error, and the final error is \<open>missing\<close>,
  not \<open>logical\<close>.
\<close>

theorem consolidate_required_disabled_counterexample:
  "add_if_exists VendorCode PNone
     (\<lparr>self_attribute_map = [],
       self_ozon_attributes = [(ascii ''9024'', \<lparr>oa_required = True, oa_disabled = True,
                                                 oa_dictionary_id = None, oa_name = ascii ''Code''\<rparr>)],
       self_market_category_deleted = False, self_ozon_category_id = ascii ''17'',
       self_required_ozon_attributes = [ascii ''9024''], self_attributes_values = [],
       self_complex_attributes_values = [], self_attributes_errors = None, self_tags_errors = []\<rparr>, [])
   = Inr
     (\<lparr>self_attribute_map = [],
       self_ozon_attributes = [(ascii ''9024'', \<lparr>oa_required = True, oa_disabled = True,
                                                 oa_dictionary_id = None, oa_name = ascii ''Code''\<rparr>)],
       self_market_category_deleted = False, self_ozon_category_id = ascii ''17'',
       self_required_ozon_attributes = [ascii ''9024''], self_attributes_values = [],
       self_complex_attributes_values = [], self_attributes_errors = None, self_tags_errors = []\<rparr>,
      [(ascii ''9024'', ascii ''missing'')]) \<and>
   consolidate_required
     \<lparr>self_attribute_map = [],
      self_ozon_attributes = [(ascii ''9024'', \<lparr>oa_required = True, oa_disabled = True,
                                                oa_dictionary_id = None, oa_name = ascii ''Code''\<rparr>)],
      self_market_category_deleted = False, self_ozon_category_id = ascii ''17'',
      self_required_ozon_attributes = [ascii ''9024''], self_attributes_values = [],
      self_complex_attributes_values = [], self_attributes_errors = None, self_tags_errors = []\<rparr>
     [] [(ascii ''9024'', ascii ''missing'')]
   = Inr [(ascii ''9024'', ascii ''missing'')] \<and>
   ascii ''missing'' \<noteq> ascii ''logical''"
  by (simp add: add_if_exists_def add_error_def consolidate_required_def od_get_def ascii_def)

subsection \<open>The attribute errors of the previous offer are never read\<close>






















subsection \<open>The outstanding required attributes only shrink\<close>



























subsection \<open>Readiness of an offer\<close>




end
